theory Spec2Isabelle
  imports Complex_Main "HOL-Library.Multiset"
begin

section \<open>Strings and numbers of the page script\<close>

text \<open>
  A JavaScript string is a sequence of UTF-16 code units. The model writes it as a
  \<^typ>\<open>string\<close> in which every \<^typ>\<open>char\<close> stands for one code unit of the range
  U+0000 to U+00FF, so that \<^const>\<open>length\<close> counts what \<open>.length\<close> counts. The
  Norwegian letters of the data and of the page's literals lie in that range
  (a-ring is \<open>CHR 0xE5\<close>, its capital \<open>CHR 0xC5\<close>).
\<close>

abbreviation nl :: string where
  "nl \<equiv> [CHR 0x0A]"

text \<open>\<open>String.prototype.startsWith\<close> and \<open>String.prototype.includes\<close>.\<close>

fun startsWith :: "string \<Rightarrow> string \<Rightarrow> bool" where
  "startsWith s [] = True"
| "startsWith [] (q # qs) = False"
| "startsWith (c # s) (q # qs) = (c = q \<and> startsWith s qs)"

fun includes_str :: "string \<Rightarrow> string \<Rightarrow> bool" where
  "includes_str [] q = (q = [])"
| "includes_str (c # s) q = (startsWith (c # s) q \<or> includes_str s q)"

text \<open>The decimal rendering of a non-negative integer, as string interpolation gives it.\<close>

definition digit_char :: "nat \<Rightarrow> char" where
  "digit_char d = ''0123456789'' ! d"

function decimal :: "nat \<Rightarrow> string" where
  "decimal n = (if n < 10 then [digit_char n] else decimal (n div 10) @ [digit_char (n mod 10)])"
  by pat_completeness auto
termination
  by (relation "measure id") auto

declare decimal.simps [simp del]

definition int_to_string :: "int \<Rightarrow> string" where
  "int_to_string i = (if i < 0 then ''-'' @ decimal (nat (- i)) else decimal (nat i))"

text \<open>
  \<open>Number.prototype.toFixed(1)\<close> on the exact value \<open>x\<close> of the number: the sign is
  split off, then the integer \<open>n\<close> with \<open>n / 10\<close> closest to the magnitude is taken,
  the larger one on a tie, and written with one digit after the point. (Above
  \<open>10\<^sup>2\<^sup>1\<close> the builtin switches to exponent notation, which is not modelled.)
\<close>

definition toFixed1 :: "rat \<Rightarrow> string" where
  "toFixed1 x =
     (let m = \<bar>x\<bar>;
          n = nat \<lfloor>m * 10 + 1 / 2\<rfloor>
      in (if x < 0 then ''-'' else '''') @ decimal (n div 10) @ ''.'' @ [digit_char (n mod 10)])"


section \<open>Data model\<close>

text \<open>
  A school record of \<open>school-data.json\<close>. A subject score is a number or \<open>null\<close>;
  \<open>average\<close> is \<open>null\<close> for a record without data. \<open>color\<close> is the display
  colour precomputed by the offline pipeline. An absent \<open>history\<close> and an empty one
  take the same branch of the script and are both the empty list here.
\<close>

record year_entry =
  year :: string
  h_engelsk :: "int option"
  h_lesing :: "int option"
  h_regning :: "int option"

record school =
  name :: string
  kommune :: string
  schoolType :: string
  lat :: rat
  lng :: rat
  engelsk :: "int option"
  lesing :: "int option"
  regning :: "int option"
  hasData :: bool
  average :: "rat option"
  validScoresCount :: nat
  color :: "string option"
  history :: "year_entry list"

text \<open>
  A Leaflet marker as the script uses it: the bound popup markup, the icon size and
  class chosen by school type, the back-reference \<open>marker.schoolData\<close> and the colour
  stored in \<open>marker.options.fillColor\<close> for the cluster calculation.
\<close>

record marker =
  latlng :: "rat \<times> rat"
  iconSize :: nat
  className :: string
  popup :: string
  schoolData :: "school option"
  fillColor :: "string option"

record div_icon =
  icon_html :: string
  icon_className :: string
  icon_size :: "nat \<times> nat"


section \<open>Cluster aggregation: \<open>iconCreateFunction\<close>\<close>

text \<open>The value the loop assigns to \<open>avg\<close> from a marker's colour (\<open>-1\<close> marks a skip).\<close>

definition reverse_avg :: "string \<Rightarrow> int" where
  "reverse_avg c =
     (if c = ''#d73027'' then 42
      else if c = ''#fc8d59'' then 47
      else if c = ''#91cf60'' then 52
      else if c = ''#1a9850'' then 57
      else if c = ''#999999'' then - 1
      else 50)"

text \<open>
  One round of \<open>markers.forEach\<close> on the pair \<open>(sum, count)\<close>. The guard
  \<open>marker.options && marker.options.fillColor\<close> is a truthiness test: a missing
  colour and the empty string both fail it.
\<close>

definition cluster_step :: "marker \<Rightarrow> int \<times> nat \<Rightarrow> int \<times> nat" where
  "cluster_step m acc =
     (case fillColor m of
        None \<Rightarrow> acc
      | Some c \<Rightarrow>
          if c = [] then acc
          else let avg = reverse_avg c
               in if avg \<noteq> - 1 then (fst acc + avg, snd acc + 1) else acc)"

definition cluster_sum_count :: "marker list \<Rightarrow> int \<times> nat" where
  "cluster_sum_count markers = fold cluster_step markers (0, 0)"

text \<open>
  \<open>average = count > 0 ? sum / count : 0\<close>. The quotient is taken exactly; the
  script's double-precision quotient of two integers compares with 45, 50 and 55 the
  way the exact one does as long as the count stays below \<open>2\<^sup>4\<^sup>7\<close>.
\<close>

definition cluster_average :: "marker list \<Rightarrow> rat" where
  "cluster_average markers =
     (let (sum, count) = cluster_sum_count markers
      in if count > 0 then of_int sum / of_nat count else 0)"

definition cluster_color :: "marker list \<Rightarrow> string" where
  "cluster_color markers =
     (let count = snd (cluster_sum_count markers);
          average = cluster_average markers
      in if count > 0 then
           (if average < 45 then ''#d73027''
            else if average \<ge> 45 \<and> average < 50 then ''#fc8d59''
            else if average \<ge> 50 \<and> average < 55 then ''#91cf60''
            else if average \<ge> 55 then ''#1a9850''
            else ''#999999'')
         else ''#999999'')"

definition iconCreateFunction :: "marker list \<Rightarrow> div_icon" where
  \<open>iconCreateFunction markers =
     (let color = cluster_color markers;
          childCount = length markers;
          size = (if childCount < 10 then ''small''
                  else if childCount < 100 then ''medium'' else ''large'')
      in \<lparr>icon_html = ''<div style="background-color: '' @ color
             @ ''; width: 100%; height: 100%; border-radius: 50%; display: flex; align-items: center; justify-content: center;"><span style="color: white; font-weight: bold;">''
             @ decimal childCount @ ''</span></div>'',
          icon_className = ''marker-cluster marker-cluster-'' @ size,
          icon_size = (40, 40)\<rparr>)\<close>


text \<open>Whether a marker passes both guards of the loop and so enters the sum and the count.\<close>

definition contributes :: "marker \<Rightarrow> bool" where
  "contributes m =
     (case fillColor m of None \<Rightarrow> False | Some c \<Rightarrow> c \<noteq> [] \<and> c \<noteq> ''#999999'')"

text \<open>A marker that enters the sum with a colour other than the four data colours.\<close>

definition other_color :: "marker \<Rightarrow> bool" where
  "other_color m =
     (contributes m
      \<and> fillColor m \<notin> {Some ''#d73027'', Some ''#fc8d59'', Some ''#91cf60'', Some ''#1a9850''})"


section \<open>Popup content: \<open>createPopupContent\<close>\<close>

text \<open>
  What the script can throw or reject with: a \<open>TypeError\<close> (a method called on
  \<open>null\<close>), the \<open>Error\<close> raised for a non-success HTTP status, the \<open>SyntaxError\<close>
  of \<open>response.json()\<close>, and the rejection of \<open>fetch\<close> itself.
\<close>

datatype js_error = TypeError | HttpError nat | SyntaxError | NetworkError

text \<open>\<open>formatScore\<close>: a missing score shows as a star.\<close>

definition formatScore :: "int option \<Rightarrow> string" where
  "formatScore score = (case score of None \<Rightarrow> ''*'' | Some v \<Rightarrow> int_to_string v)"

text \<open>
  The \<open>currentScores\<close> fragment. \<open>school.average.toFixed(1)\<close> throws when the record
  claims data and carries no average.
\<close>

definition currentScores :: "school \<Rightarrow> js_error + string" where
  \<open>currentScores school =
     (if hasData school then
        (case average school of
           None \<Rightarrow> Inl TypeError
         | Some a \<Rightarrow>
             Inr (''<b>Engelsk:</b> '' @ formatScore (engelsk school) @ ''&nbsp;&nbsp;'' @ nl
                @ ''           <b>Lesing:</b> '' @ formatScore (lesing school) @ ''&nbsp;&nbsp;'' @ nl
                @ ''           <b>Regning:</b> '' @ formatScore (regning school) @ ''<br>'' @ nl
                @ ''           <b>Snitt:</b> '' @ toFixed1 a
                @ '' <small>('' @ decimal (validScoresCount school) @ '' fag)</small>''))
      else
        Inr (''<b>Engelsk:</b> *&nbsp;&nbsp;<b>Lesing:</b> *&nbsp;&nbsp;<b>Regning:</b> *<br>'' @ nl
           @ ''           <i style="color:#888">Ingen data tilgjengelig</i>''))\<close>

text \<open>One row of the history table: the year, the three scores and their own average.\<close>

definition history_row :: "year_entry \<Rightarrow> string" where
  \<open>history_row h =
     (let scores = List.map_filter id [h_engelsk h, h_lesing h, h_regning h];
          avg = (if length scores > 0
                 then toFixed1 (of_int (fold (\<lambda>b a. a + b) scores 0) / of_nat (length scores))
                 else ''*'')
      in ''<tr>'' @ nl
       @ ''                <td>'' @ year h @ ''</td>'' @ nl
       @ ''                <td>'' @ formatScore (h_engelsk h) @ ''</td>'' @ nl
       @ ''                <td>'' @ formatScore (h_lesing h) @ ''</td>'' @ nl
       @ ''                <td>'' @ formatScore (h_regning h) @ ''</td>'' @ nl
       @ ''                <td>'' @ avg @ ''</td>'' @ nl
       @ ''            </tr>'')\<close>

definition historyHtml :: "school \<Rightarrow> string" where
  \<open>historyHtml school =
     (if length (history school) > 0 then
        (let rows = concat (map history_row (rev (history school)))
         in nl
          @ ''            <div class="popup-history">'' @ nl
          @ ''                <b>Historikk</b>'' @ nl
          @ ''                <table class="popup-history-table">'' @ nl
          @ ''                    <thead>'' @ nl
          @ ''                        <tr><th>'' @ [CHR 0xC5] @ ''r</th><th>Eng</th><th>Les</th><th>Reg</th><th>Snitt</th></tr>'' @ nl
          @ ''                    </thead>'' @ nl
          @ ''                    <tbody>'' @ rows @ ''</tbody>'' @ nl
          @ ''                </table>'' @ nl
          @ ''            </div>'')
      else [])\<close>

text \<open>
  \<open>createPopupContent\<close> of \<open>static/js/main.js\<close>. The first argument is the global
  \<open>window.SCHOOL_DATA_YEAR\<close>. The name, the municipality and the history fragment
  are interpolated as they are.
\<close>

definition createPopupContent :: "string option \<Rightarrow> school \<Rightarrow> js_error + string" where
  \<open>createPopupContent data_year school =
     (case currentScores school of
        Inl e \<Rightarrow> Inl e
      | Inr scores \<Rightarrow>
          Inr (nl
             @ ''        <div class="popup-school">'' @ nl
             @ ''            <div class="popup-header">'' @ nl
             @ ''                <span class="popup-name">'' @ name school @ ''</span>'' @ nl
             @ ''                <span class="popup-year">''
             @ (case data_year of None \<Rightarrow> [] | Some y \<Rightarrow> y) @ ''</span>'' @ nl
             @ ''            </div>'' @ nl
             @ ''            <div class="popup-kommune">'' @ kommune school @ ''</div>'' @ nl
             @ ''            <div class="popup-current">'' @ scores @ ''</div>'' @ nl
             @ ''            '' @ historyHtml school @ nl
             @ ''        </div>''))\<close>

text \<open>
  The same function in the second copy of the script (\<open>src/unnamed/part_000\<close>), which
  has no history table and words the average line differently.
\<close>

definition createPopupContent_part_000 :: "school \<Rightarrow> js_error + string" where
  \<open>createPopupContent_part_000 school =
     (if hasData school then
        (case average school of
           None \<Rightarrow> Inl TypeError
         | Some a \<Rightarrow>
             Inr (nl
                @ ''            <b>'' @ name school @ ''</b><br>'' @ nl
                @ ''            <b>Kommune:</b> '' @ kommune school @ ''<br>'' @ nl
                @ ''            <br>'' @ nl
                @ ''            <b>Engelsk:</b> '' @ formatScore (engelsk school) @ ''<br>'' @ nl
                @ ''            <b>Lesing:</b> '' @ formatScore (lesing school) @ ''<br>'' @ nl
                @ ''            <b>Regning:</b> '' @ formatScore (regning school) @ ''<br>'' @ nl
                @ ''            <b>Gjennomsnitt:</b> '' @ toFixed1 a
                @ '' (basert p'' @ [CHR 0xE5] @ '' '' @ decimal (validScoresCount school) @ '' fag)'' @ nl
                @ ''        ''))
      else
        Inr (nl
           @ ''            <b>'' @ name school @ ''</b><br>'' @ nl
           @ ''            <b>Kommune:</b> '' @ kommune school @ ''<br>'' @ nl
           @ ''            <br>'' @ nl
           @ ''            <b>Engelsk:</b> *<br>'' @ nl
           @ ''            <b>Lesing:</b> *<br>'' @ nl
           @ ''            <b>Regning:</b> *<br>'' @ nl
           @ ''            <b>Status:</b> <i>Ingen data tilgjengelig</i>'' @ nl
           @ ''        ''))\<close>


section \<open>Marker factory: \<open>createSchoolMarker\<close>\<close>

text \<open>
  The popup markup is produced when the marker is created, so a throwing
  \<open>createPopupContent\<close> leaves no marker. The icon's SVG drawing is left out of the
  record; its size, its class and the colour it is filled with are kept.
\<close>

definition createSchoolMarker :: "string option \<Rightarrow> school \<Rightarrow> js_error + marker" where
  "createSchoolMarker data_year school =
     (case createPopupContent data_year school of
        Inl e \<Rightarrow> Inl e
      | Inr popupContent \<Rightarrow>
          (let isUngdomsskole = (schoolType school = ''ungdomsskole'');
               size = (if isUngdomsskole then 40 else 30)
           in Inr \<lparr>latlng = (lat school, lng school),
                   iconSize = size,
                   className = ''school-marker-icon ''
                     @ (if isUngdomsskole then ''ungdomsskole-icon'' else ''barnaskole-icon''),
                   popup = popupContent,
                   schoolData = Some school,
                   fillColor = color school\<rparr>))"


section \<open>Search: \<open>performSearch\<close> and its helpers\<close>

text \<open>
  \<open>String.prototype.toLowerCase\<close> on code units up to U+00FF: the letters A to Z and
  the capital letters U+00C0 to U+00DE (the multiplication sign U+00D7 apart) move
  up by 32, that is, bit 5 is set; every other code unit stays.
\<close>

definition is_upper :: "char \<Rightarrow> bool" where
  "is_upper c =
     (let n = (of_char c :: nat)
      in (65 \<le> n \<and> n \<le> 90) \<or> (192 \<le> n \<and> n \<le> 222 \<and> n \<noteq> 215))"

fun lower_char :: "char \<Rightarrow> char" where
  "lower_char (Char b0 b1 b2 b3 b4 b5 b6 b7) =
     (if is_upper (Char b0 b1 b2 b3 b4 b5 b6 b7) then Char b0 b1 b2 b3 b4 True b6 b7
      else Char b0 b1 b2 b3 b4 b5 b6 b7)"

definition toLowerCase :: "string \<Rightarrow> string" where
  "toLowerCase s = map lower_char s"

text \<open>\<open>String.prototype.trim\<close>: white space and line terminators go from both ends.\<close>

definition is_space :: "char \<Rightarrow> bool" where
  "is_space c \<longleftrightarrow> c \<in> set [CHR 0x09, CHR 0x0A, CHR 0x0B, CHR 0x0C, CHR 0x0D, CHR 0x20, CHR 0xA0]"

definition trim :: "string \<Rightarrow> string" where
  "trim s = rev (dropWhile is_space (rev (dropWhile is_space s)))"

text \<open>
  \<open>escapeHtml\<close> writes the text into a fresh element and reads its markup back: the
  serialisation of a text node replaces the ampersand, the two angle brackets and
  the no-break space, and nothing else (quotation marks stay).
\<close>

definition escape_char :: "char \<Rightarrow> string" where
  "escape_char c =
     (if c = CHR ''&'' then ''&amp;''
      else if c = CHR ''<'' then ''&lt;''
      else if c = CHR ''>'' then ''&gt;''
      else if c = CHR 0xA0 then ''&nbsp;''
      else [c])"

definition escapeHtml :: "string \<Rightarrow> string" where
  "escapeHtml text = concat (map escape_char text)"

text \<open>
  \<open>highlightMatch\<close>: \<open>escapeRegex\<close> makes the query a literal pattern, the flags
  \<open>gi\<close> find every occurrence from left to right without regard to case, and each
  one is wrapped in a span. The pattern of an empty query matches before every code
  unit and at the end.
\<close>

fun startsWith_ci :: "string \<Rightarrow> string \<Rightarrow> bool" where
  "startsWith_ci s [] = True"
| "startsWith_ci [] (q # qs) = False"
| "startsWith_ci (c # s) (q # qs) = (lower_char c = lower_char q \<and> startsWith_ci s qs)"

definition highlight_span :: "string \<Rightarrow> string" where
  \<open>highlight_span matched = ''<span class="search-result-highlight">'' @ matched @ ''</span>''\<close>

function replace_matches :: "string \<Rightarrow> string \<Rightarrow> string" where
  "replace_matches [] q = (if q = [] then highlight_span [] else [])"
| "replace_matches (c # s) q =
     (if q = [] then highlight_span [] @ c # replace_matches s q
      else if startsWith_ci (c # s) q
      then highlight_span (take (length q) (c # s)) @ replace_matches (drop (length q) (c # s)) q
      else c # replace_matches s q)"
  by pat_completeness auto
termination
  by (relation "measure (\<lambda>(s, q). length s)") auto

definition highlightMatch :: "string \<Rightarrow> string \<Rightarrow> string" where
  "highlightMatch text query = replace_matches (escapeHtml text) query"

text \<open>
  \<open>Array.prototype.sort\<close> with a comparison function. For a consistent comparison
  the language fixes the result: the sorted arrangement in which elements that compare
  equal keep their order. Stable insertion computes it.
\<close>

fun insert_sorted :: "('a \<Rightarrow> 'a \<Rightarrow> int) \<Rightarrow> 'a \<Rightarrow> 'a list \<Rightarrow> 'a list" where
  "insert_sorted cmp x [] = [x]"
| "insert_sorted cmp x (y # ys) =
     (if cmp x y \<le> 0 then x # y # ys else y # insert_sorted cmp x ys)"

definition array_sort :: "('a \<Rightarrow> 'a \<Rightarrow> int) \<Rightarrow> 'a list \<Rightarrow> 'a list" where
  "array_sort cmp xs = foldr (insert_sorted cmp) xs []"

text \<open>
  The comparison function of the search. \<open>localeCompare\<close> belongs to the browser and
  is a parameter \<open>lc\<close> of the model.
\<close>

definition sort_compare :: "(string \<Rightarrow> string \<Rightarrow> int) \<Rightarrow> string \<Rightarrow> school \<Rightarrow> school \<Rightarrow> int" where
  "sort_compare lc queryLower a b =
     (let aStartsWith = startsWith (toLowerCase (name a)) queryLower;
          bStartsWith = startsWith (toLowerCase (name b)) queryLower
      in if aStartsWith \<and> \<not> bStartsWith then - 1
         else if \<not> aStartsWith \<and> bStartsWith then 1
         else lc (name a) (name b))"

text \<open>The array \<open>matchingSchools\<close> after the filter and the sort.\<close>

definition matchingSchools :: "(string \<Rightarrow> string \<Rightarrow> int) \<Rightarrow> school list \<Rightarrow> string \<Rightarrow> school list" where
  "matchingSchools lc data query =
     (let queryLower = toLowerCase query
      in array_sort (sort_compare lc queryLower)
           (filter (\<lambda>school. includes_str (toLowerCase (name school)) queryLower) data))"

text \<open>The markup of one result row and of the line that follows a capped list.\<close>

definition result_item :: "string \<Rightarrow> school \<Rightarrow> string" where
  \<open>result_item query school =
     (let highlightedName = highlightMatch (name school) query
      in nl
       @ ''                <div class="search-result-item" data-school-name="'' @ escapeHtml (name school)
       @ ''" data-school-kommune="'' @ escapeHtml (kommune school) @ ''">'' @ nl
       @ ''                    <div class="search-result-name">'' @ highlightedName @ ''</div>'' @ nl
       @ ''                    <div class="search-result-kommune">'' @ escapeHtml (kommune school) @ ''</div>'' @ nl
       @ ''                </div>'' @ nl
       @ ''            '')\<close>

definition more_results :: "nat \<Rightarrow> nat \<Rightarrow> string" where
  \<open>more_results maxResults n_total =
     nl
     @ ''                <div class="no-results" style="font-style: normal; font-size: 12px;">'' @ nl
     @ ''                    Viser '' @ decimal maxResults @ '' av '' @ decimal n_total @ '' resultater'' @ nl
     @ ''                </div>'' @ nl
     @ ''            ''\<close>

text \<open>
  The markup \<open>performSearch\<close> assigns last to the result container for a non-empty
  match list. The rows of the first ten matches, joined, are assigned first. When
  there are more matches, \<open>innerHTML +=\<close> reads the container's markup back, as the
  browser serialises the elements it has built from the rows, and assigns it again
  with the line of the counts appended. The reading back belongs to the browser and
  is the parameter \<open>read_back\<close>, a function of the markup assigned before.
\<close>

definition results_markup :: "(string \<Rightarrow> string) \<Rightarrow> string \<Rightarrow> school list \<Rightarrow> string" where
  "results_markup read_back query matching =
     (let maxResults = 10;
          resultsToShow = take maxResults matching;
          assigned = concat (map (result_item query) resultsToShow)
      in if length matching > maxResults
         then read_back assigned @ more_results maxResults (length matching)
         else assigned)"


section \<open>Page state\<close>

text \<open>
  What the script writes to the console, by call site, and what it schedules with
  \<open>setTimeout\<close> (the delay in milliseconds comes with each entry).
\<close>

datatype console_entry =
    LoadedData nat
  | MapInitialized
  | SearchElementsNotFound
  | ErrorLoadingSchoolData js_error
  | MarkerNotFound string string

datatype timer = RetryInitializeSearch | OpenPopupOf marker

text \<open>
  The globals of the script (\<open>schoolsData\<close>, \<open>schoolMarkers\<close>,
  \<open>window.SCHOOL_DATA_YEAR\<close>) together with the parts of the map and of the document
  that it reads and writes: the view, the layers of the cluster group in the order
  \<open>getLayers()\<close> returns them, the layers currently drawn on the map, the open popup,
  the search box (\<open>resultsHtml\<close> is the markup last assigned to the result
  container), the console, the alerts shown and the pending timers.
\<close>

record app =
  schoolsData :: "school list"
  schoolMarkers :: "string \<rightharpoonup> marker \<times> school"
  SCHOOL_DATA_YEAR :: "string option"
  view :: "(rat \<times> rat) \<times> nat"
  clusterLayers :: "marker list"
  clusterOnMap :: bool
  drawnLayers :: "marker list"
  openPopup :: "marker option"
  searchElements :: bool
  searchInitialized :: bool
  searchInput :: string
  clearVisible :: bool
  resultsHtml :: string
  resultsVisible :: bool
  console :: "console_entry list"
  alerts :: "string list"
  timers :: "(nat \<times> timer) list"

text \<open>The page after \<open>initMap\<close>, before any data has arrived.\<close>

definition initial_app :: "bool \<Rightarrow> app" where
  "initial_app elements =
     \<lparr>schoolsData = [], schoolMarkers = Map.empty, SCHOOL_DATA_YEAR = None,
      view = ((61624746195799126 / 1000000000000000, 1001940767020763 / 100000000000000), 5),
      clusterLayers = [], clusterOnMap = False, drawnLayers = [], openPopup = None,
      searchElements = elements, searchInitialized = False, searchInput = [],
      clearVisible = False, resultsHtml = [], resultsVisible = False,
      console = [], alerts = [], timers = []\<rparr>"


section \<open>Navigation: \<open>zoomToSchool\<close>\<close>

text \<open>The loop over \<open>allMarkers\<close>, which stops at the first marker whose record has both fields equal.\<close>

fun find_marker :: "string \<Rightarrow> string \<Rightarrow> marker list \<Rightarrow> marker option" where
  "find_marker schoolName schoolKommune [] = None"
| "find_marker schoolName schoolKommune (m # ms) =
     (case schoolData m of
        None \<Rightarrow> find_marker schoolName schoolKommune ms
      | Some s \<Rightarrow>
          if name s = schoolName \<and> kommune s = schoolKommune then Some m
          else find_marker schoolName schoolKommune ms)"

text \<open>The test of the loop: the marker has a record with this name and this municipality.\<close>

definition matches_pair :: "string \<Rightarrow> string \<Rightarrow> marker \<Rightarrow> bool" where
  "matches_pair schoolName schoolKommune m =
     (case schoolData m of
        None \<Rightarrow> False
      | Some s \<Rightarrow> name s = schoolName \<and> kommune s = schoolKommune)"

text \<open>
  Without a target only the console is written. With one, the view moves to the
  coordinates of the target's record at zoom 15 and the popup is left to a timer of
  one second. (A found marker always has a record, so the second case below with
  no record does not arise; it leaves the view alone.)
\<close>

definition zoomToSchool :: "string \<Rightarrow> string \<Rightarrow> app \<Rightarrow> app" where
  "zoomToSchool schoolName schoolKommune st =
     (case find_marker schoolName schoolKommune (clusterLayers st) of
        None \<Rightarrow> st\<lparr>console := console st @ [MarkerNotFound schoolName schoolKommune]\<rparr>
      | Some targetMarker \<Rightarrow>
          (case schoolData targetMarker of
             None \<Rightarrow> st
           | Some school \<Rightarrow>
               st\<lparr>view := ((lat school, lng school), 15),
                  timers := timers st @ [(1000, OpenPopupOf targetMarker)]\<rparr>))"

text \<open>
  The timer's callback. \<open>zoomToShowLayer\<close> belongs to the clustering library and is
  the parameter \<open>reveal\<close>; its callback opens the popup. (\<open>map.hasLayer\<close> compares
  objects; the model compares the markers' contents.)
\<close>

definition open_popup_callback :: "(marker \<Rightarrow> app \<Rightarrow> app) \<Rightarrow> marker \<Rightarrow> app \<Rightarrow> app" where
  "open_popup_callback reveal targetMarker st =
     (if targetMarker \<notin> set (drawnLayers st)
      then (reveal targetMarker st)\<lparr>openPopup := Some targetMarker\<rparr>
      else st\<lparr>openPopup := Some targetMarker\<rparr>)"


section \<open>Search box handlers\<close>

definition performSearch ::
  "(string \<Rightarrow> string) \<Rightarrow> (string \<Rightarrow> string \<Rightarrow> int) \<Rightarrow> string \<Rightarrow> app \<Rightarrow> app" where
  \<open>performSearch read_back lc query st =
     (let matching = matchingSchools lc (schoolsData st) query
      in if length matching > 0
         then st\<lparr>resultsHtml := results_markup read_back query matching, resultsVisible := True\<rparr>
         else st\<lparr>resultsHtml := ''<div class="no-results">Ingen skoler funnet</div>'',
                 resultsVisible := True\<rparr>)\<close>

text \<open>The \<open>input\<close> handler: the search runs from two code units of trimmed text on.\<close>

definition on_search_input ::
  "(string \<Rightarrow> string) \<Rightarrow> (string \<Rightarrow> string \<Rightarrow> int) \<Rightarrow> string \<Rightarrow> app \<Rightarrow> app" where
  "on_search_input read_back lc val st =
     (let query = trim val;
          st1 = st\<lparr>searchInput := val, clearVisible := (length query > 0)\<rparr>
      in if length query \<ge> 2 then performSearch read_back lc query st1
         else st1\<lparr>resultsVisible := False, resultsHtml := []\<rparr>)"

text \<open>
  The click handler of a result row, with the two attribute values the document
  hands back for that row.
\<close>

definition on_result_click :: "string \<Rightarrow> string \<Rightarrow> app \<Rightarrow> app" where
  "on_result_click schoolName schoolKommune st =
     (let st1 = zoomToSchool schoolName schoolKommune st;
          st2 = st1\<lparr>resultsVisible := False\<rparr>
      in if searchElements st2 then st2\<lparr>searchInput := [], clearVisible := False\<rparr> else st2)"

definition initializeSearch :: "app \<Rightarrow> app" where
  "initializeSearch st =
     (if \<not> searchElements st
      then st\<lparr>console := console st @ [SearchElementsNotFound],
              timers := timers st @ [(100, RetryInitializeSearch)]\<rparr>
      else st\<lparr>searchInitialized := True\<rparr>)"


section \<open>Dataset loader: \<open>loadSchoolData\<close>\<close>

text \<open>
  The parsed document: the school list (absent in a malformed document), the year tag
  of the metadata and the map configuration, both optional.
\<close>

record dataset =
  schools :: "school list option"
  currentYear :: "string option"
  mapConfig :: "((rat \<times> rat) \<times> nat) option"

text \<open>
  How the request ends: \<open>fetch\<close> rejects, or a response arrives with its \<open>ok\<close> flag,
  its status and what \<open>response.json()\<close> makes of the body (\<open>None\<close> when it does not
  parse).
\<close>

datatype fetch_outcome = Rejected | Response bool nat "dataset option"

text \<open>
  \<open>createSchoolMarkers\<close>: each school gets its marker, which joins the cluster group
  and is registered under the key of name and municipality. An exception leaves the
  loop with the markers made so far in place.
\<close>

fun createSchoolMarkers :: "school list \<Rightarrow> app \<Rightarrow> js_error option \<times> app" where
  "createSchoolMarkers [] st = (None, st)"
| "createSchoolMarkers (school # rest) st =
     (case createSchoolMarker (SCHOOL_DATA_YEAR st) school of
        Inl e \<Rightarrow> (Some e, st)
      | Inr m \<Rightarrow>
          (let uniqueKey = name school @ ''|'' @ kommune school
           in createSchoolMarkers rest
                (st\<lparr>clusterLayers := clusterLayers st @ [m],
                    schoolMarkers := (schoolMarkers st)(uniqueKey \<mapsto> (m, school))\<rparr>)))"

text \<open>The second \<open>then\<close> callback, which runs on a parsed document only.\<close>

definition on_data :: "dataset \<Rightarrow> app \<Rightarrow> js_error option \<times> app" where
  "on_data data st =
     (case schools data of
        None \<Rightarrow> (Some TypeError, st)
      | Some ss \<Rightarrow>
          (let st1 = st\<lparr>console := console st @ [LoadedData (length ss)]\<rparr>;
               st2 = (case currentYear data of
                        None \<Rightarrow> st1
                      | Some y \<Rightarrow> if y = [] then st1 else st1\<lparr>SCHOOL_DATA_YEAR := Some y\<rparr>);
               st3 = st2\<lparr>schoolsData := ss\<rparr>;
               st4 = (case mapConfig data of None \<Rightarrow> st3 | Some v \<Rightarrow> st3\<lparr>view := v\<rparr>)
           in case createSchoolMarkers ss st4 of
                (Some e, st5) \<Rightarrow> (Some e, st5)
              | (None, st5) \<Rightarrow>
                  (let st6 = st5\<lparr>clusterOnMap := True\<rparr>;
                       st7 = initializeSearch st6
                   in (None, st7\<lparr>console := console st7 @ [MapInitialized]\<rparr>))))"

text \<open>The \<open>catch\<close> handler: the error goes to the console and an alert is shown.\<close>

definition on_load_error :: "js_error \<Rightarrow> app \<Rightarrow> app" where
  "on_load_error e st =
     st\<lparr>console := console st @ [ErrorLoadingSchoolData e],
        alerts := alerts st @ [''Failed to load school data. Please ensure school-data.json exists.'']\<rparr>"

definition loadSchoolData :: "fetch_outcome \<Rightarrow> app \<Rightarrow> app" where
  "loadSchoolData outcome st =
     (case outcome of
        Rejected \<Rightarrow> on_load_error NetworkError st
      | Response ok status body \<Rightarrow>
          if \<not> ok then on_load_error (HttpError status) st
          else (case body of
                  None \<Rightarrow> on_load_error SyntaxError st
                | Some data \<Rightarrow>
                    (case on_data data st of
                       (Some e, st') \<Rightarrow> on_load_error e st'
                     | (None, st') \<Rightarrow> st')))"

text \<open>
  The loader of the second copy of the script (\<open>src/unnamed/part_000\<close>): the same
  promise chain, without the year tag, the global school list and the search. Its
  markers are circle markers bound to the popup of that copy.
\<close>

definition createSchoolMarker_part_000 :: "school \<Rightarrow> js_error + marker" where
  "createSchoolMarker_part_000 school =
     (case createPopupContent_part_000 school of
        Inl e \<Rightarrow> Inl e
      | Inr popupContent \<Rightarrow>
          Inr \<lparr>latlng = (lat school, lng school), iconSize = 8, className = [],
               popup = popupContent, schoolData = None, fillColor = color school\<rparr>)"

fun createSchoolMarkers_part_000 :: "school list \<Rightarrow> app \<Rightarrow> js_error option \<times> app" where
  "createSchoolMarkers_part_000 [] st = (None, st)"
| "createSchoolMarkers_part_000 (school # rest) st =
     (case createSchoolMarker_part_000 school of
        Inl e \<Rightarrow> (Some e, st)
      | Inr m \<Rightarrow> createSchoolMarkers_part_000 rest (st\<lparr>clusterLayers := clusterLayers st @ [m]\<rparr>))"

definition on_data_part_000 :: "dataset \<Rightarrow> app \<Rightarrow> js_error option \<times> app" where
  "on_data_part_000 data st =
     (case schools data of
        None \<Rightarrow> (Some TypeError, st)
      | Some ss \<Rightarrow>
          (let st1 = st\<lparr>console := console st @ [LoadedData (length ss)]\<rparr>;
               st2 = (case mapConfig data of None \<Rightarrow> st1 | Some v \<Rightarrow> st1\<lparr>view := v\<rparr>)
           in case createSchoolMarkers_part_000 ss st2 of
                (Some e, st3) \<Rightarrow> (Some e, st3)
              | (None, st3) \<Rightarrow>
                  (None, st3\<lparr>clusterOnMap := True, console := console st3 @ [MapInitialized]\<rparr>)))"

definition loadSchoolData_part_000 :: "fetch_outcome \<Rightarrow> app \<Rightarrow> app" where
  "loadSchoolData_part_000 outcome st =
     (case outcome of
        Rejected \<Rightarrow> on_load_error NetworkError st
      | Response ok status body \<Rightarrow>
          if \<not> ok then on_load_error (HttpError status) st
          else (case body of
                  None \<Rightarrow> on_load_error SyntaxError st
                | Some data \<Rightarrow>
                    (case on_data_part_000 data st of
                       (Some e, st') \<Rightarrow> on_load_error e st'
                     | (None, st') \<Rightarrow> st')))"


section \<open>Sample data\<close>

text \<open>A marker that carries a colour and nothing else, and a school record with two given fields.\<close>

definition colored_marker :: "string \<Rightarrow> marker" where
  "colored_marker c =
     \<lparr>latlng = (0, 0), iconSize = 30, className = [], popup = [], schoolData = None,
      fillColor = Some c\<rparr>"

definition sample_school :: "string \<Rightarrow> string \<Rightarrow> school" where
  "sample_school n k =
     \<lparr>name = n, kommune = k, schoolType = ''barneskole'', lat = 60, lng = 10,
      engelsk = Some 50, lesing = None, regning = Some 56, hasData = True,
      average = Some 53, validScoresCount = 2, color = Some ''#91cf60'', history = []\<rparr>"

text \<open>The marker of a school record, without its popup markup.\<close>

definition marker_of :: "school \<Rightarrow> marker" where
  "marker_of s =
     \<lparr>latlng = (lat s, lng s), iconSize = 30, className = [], popup = [], schoolData = Some s,
      fillColor = color s\<rparr>"

text \<open>Two schools of one name in two municipalities, and a page that holds their markers.\<close>

definition nordre_oslo :: school where
  "nordre_oslo = sample_school ''Nordre skole'' ''Oslo''"

definition nordre_bergen :: school where
  "nordre_bergen = (sample_school ''Nordre skole'' ''Bergen'')\<lparr>lat := 604 / 10, lng := 53 / 10\<rparr>"

definition two_towns :: app where
  "two_towns =
     (initial_app True)\<lparr>schoolsData := [nordre_oslo, nordre_bergen],
                        clusterLayers := [marker_of nordre_oslo, marker_of nordre_bergen]\<rparr>"

text \<open>
  A comparison of strings by code units, which is a consistent comparison function
  and stands for \<open>localeCompare\<close> in the examples.
\<close>

fun code_compare :: "string \<Rightarrow> string \<Rightarrow> int" where
  "code_compare [] [] = 0"
| "code_compare [] (b # bs) = - 1"
| "code_compare (a # as) [] = 1"
| "code_compare (a # as) (b # bs) =
     (if (of_char a :: nat) < of_char b then - 1
      else if (of_char b :: nat) < of_char a then 1
      else code_compare as bs)"

text \<open>Three schools for the query \<open>Oslo\<close>, and fifteen schools that all match \<open>skole\<close>.\<close>

definition oslo_schools :: "school list" where
  "oslo_schools =
     [sample_school ''Ny Oslo Skole'' ''Oslo'', sample_school ''Bergen skole'' ''Bergen'',
      sample_school ''Oslo Skole'' ''Oslo'']"


section \<open>Properties of the cluster aggregation\<close>

lemma reverse_avg_skip: "reverse_avg c = - 1 \<longleftrightarrow> c = ''#999999''"
  by (simp add: reverse_avg_def)

lemma cluster_step_cases:
  "cluster_step m acc =
     (if contributes m then (fst acc + reverse_avg (the (fillColor m)), snd acc + 1) else acc)"
  by (simp add: cluster_step_def contributes_def reverse_avg_skip Let_def split: option.split)

lemma fold_cluster_step:
  "fold cluster_step ms acc =
     (fst acc + (\<Sum>m\<leftarrow>filter contributes ms. reverse_avg (the (fillColor m))),
      snd acc + length (filter contributes ms))"
proof (induction ms arbitrary: acc)
  case Nil
  show ?case by simp
next
  case (Cons m ms)
  have "fold cluster_step (m # ms) acc = fold cluster_step ms (cluster_step m acc)"
    by simp
  also have "\<dots> =
     (fst (cluster_step m acc) + (\<Sum>m\<leftarrow>filter contributes ms. reverse_avg (the (fillColor m))),
      snd (cluster_step m acc) + length (filter contributes ms))"
    by (rule Cons.IH)
  also have "\<dots> =
     (fst acc + (\<Sum>m\<leftarrow>filter contributes (m # ms). reverse_avg (the (fillColor m))),
      snd acc + length (filter contributes (m # ms)))"
    by (simp add: cluster_step_cases)
  finally show ?case .
qed

lemma cluster_sum_count_eq:
  "cluster_sum_count ms =
     ((\<Sum>m\<leftarrow>filter contributes ms. reverse_avg (the (fillColor m))),
      length (filter contributes ms))"
  by (simp add: cluster_sum_count_def fold_cluster_step)


lemma head_contribution:
  "(if contributes m then reverse_avg (the (fillColor m)) else 0) =
       42 * (if fillColor m = Some ''#d73027'' then 1 else 0)
     + 47 * (if fillColor m = Some ''#fc8d59'' then 1 else 0)
     + 52 * (if fillColor m = Some ''#91cf60'' then 1 else 0)
     + 57 * (if fillColor m = Some ''#1a9850'' then 1 else 0)
     + 50 * (if other_color m then 1 else 0)"
  by (cases "fillColor m") (auto simp: contributes_def other_color_def reverse_avg_def)

lemma head_count:
  "(if contributes m then 1 else 0 :: nat) =
       (if fillColor m = Some ''#d73027'' then 1 else 0)
     + (if fillColor m = Some ''#fc8d59'' then 1 else 0)
     + (if fillColor m = Some ''#91cf60'' then 1 else 0)
     + (if fillColor m = Some ''#1a9850'' then 1 else 0)
     + (if other_color m then 1 else 0)"
  by (cases "fillColor m") (auto simp: contributes_def other_color_def)

lemma cluster_contribution:
  "(\<Sum>m\<leftarrow>filter contributes ms. reverse_avg (the (fillColor m))) =
           42 * int (count_list (map fillColor ms) (Some ''#d73027''))
         + 47 * int (count_list (map fillColor ms) (Some ''#fc8d59''))
         + 52 * int (count_list (map fillColor ms) (Some ''#91cf60''))
         + 57 * int (count_list (map fillColor ms) (Some ''#1a9850''))
         + 50 * int (length (filter other_color ms))"
proof (induction ms)
  case Nil
  show ?case by simp
next
  case (Cons m ms)
  have "(\<Sum>x\<leftarrow>filter contributes (m # ms). reverse_avg (the (fillColor x))) =
          (if contributes m then reverse_avg (the (fillColor m)) else 0)
        + (\<Sum>x\<leftarrow>filter contributes ms. reverse_avg (the (fillColor x)))"
    by simp
  also note head_contribution
  also note Cons.IH
  finally show ?case
    by (simp add: algebra_simps)
qed

lemma cluster_count:
  "length (filter contributes ms) =
           count_list (map fillColor ms) (Some ''#d73027'')
         + count_list (map fillColor ms) (Some ''#fc8d59'')
         + count_list (map fillColor ms) (Some ''#91cf60'')
         + count_list (map fillColor ms) (Some ''#1a9850'')
         + length (filter other_color ms)"
proof (induction ms)
  case Nil
  show ?case by simp
next
  case (Cons m ms)
  have "length (filter contributes (m # ms)) =
          (if contributes m then 1 else 0) + length (filter contributes ms)"
    by simp
  also note head_count
  also note Cons.IH
  finally show ?case
    by simp
qed

text \<open>
  Claim C1. In every cluster with at least one marker that carries data (a colour that
  is not gray), every red marker enters the sum as 42, every orange one as 47, every
  light-green one as 52 and every dark-green one as 57 (a marker of any further colour
  enters as 50), the gray ones enter neither the sum nor the count, the average is the
  mean of these values, and the cluster is red exactly when the mean is below 45,
  orange exactly from 45 to below 50, light green exactly from 50 to below 55 and dark
  green exactly from 55 on: a mean of 45, 50 or 55 falls into the upper band.
\<close>

theorem cluster_color_bands_of_mean:
  fixes markers :: "marker list"
  assumes some_data: "\<exists>m\<in>set markers. contributes m"
  shows
    "(let reds = count_list (map fillColor markers) (Some ''#d73027'');
          oranges = count_list (map fillColor markers) (Some ''#fc8d59'');
          lights = count_list (map fillColor markers) (Some ''#91cf60'');
          darks = count_list (map fillColor markers) (Some ''#1a9850'');
          others = length (filter other_color markers);
          n = reds + oranges + lights + darks + others;
          mean = (42 * rat_of_nat reds + 47 * rat_of_nat oranges + 52 * rat_of_nat lights
                   + 57 * rat_of_nat darks + 50 * rat_of_nat others) / rat_of_nat n
      in cluster_sum_count markers =
           (42 * int reds + 47 * int oranges + 52 * int lights + 57 * int darks + 50 * int others, n)
       \<and> 0 < n
       \<and> cluster_average markers = mean
       \<and> (cluster_color markers = ''#d73027'' \<longleftrightarrow> mean < 45)
       \<and> (cluster_color markers = ''#fc8d59'' \<longleftrightarrow> 45 \<le> mean \<and> mean < 50)
       \<and> (cluster_color markers = ''#91cf60'' \<longleftrightarrow> 50 \<le> mean \<and> mean < 55)
       \<and> (cluster_color markers = ''#1a9850'' \<longleftrightarrow> 55 \<le> mean))"
proof -
  define reds where "reds = count_list (map fillColor markers) (Some ''#d73027'')"
  define oranges where "oranges = count_list (map fillColor markers) (Some ''#fc8d59'')"
  define lights where "lights = count_list (map fillColor markers) (Some ''#91cf60'')"
  define darks where "darks = count_list (map fillColor markers) (Some ''#1a9850'')"
  define others where "others = length (filter other_color markers)"
  define n where "n = reds + oranges + lights + darks + others"
  define mean where
    "mean = (42 * rat_of_nat reds + 47 * rat_of_nat oranges + 52 * rat_of_nat lights
              + 57 * rat_of_nat darks + 50 * rat_of_nat others) / rat_of_nat n"
  have len: "length (filter contributes markers) = n"
    unfolding n_def reds_def oranges_def lights_def darks_def others_def
    by (rule cluster_count)
  have sc: "cluster_sum_count markers =
      (42 * int reds + 47 * int oranges + 52 * int lights + 57 * int darks + 50 * int others, n)"
    unfolding cluster_sum_count_eq len
    unfolding reds_def oranges_def lights_def darks_def others_def
    by (simp only: cluster_contribution)
  from some_data have "filter contributes markers \<noteq> []"
    by (auto simp: filter_empty_conv)
  then have pos: "0 < n"
    using len by auto
  have avg: "cluster_average markers = mean"
    using pos by (simp add: cluster_average_def sc mean_def)
  have col: "cluster_color markers =
      (if mean < 45 then ''#d73027''
       else if mean < 50 then ''#fc8d59''
       else if mean < 55 then ''#91cf60'' else ''#1a9850'')"
    using pos by (simp add: cluster_color_def sc avg)
  have bands:
    "(cluster_color markers = ''#d73027'' \<longleftrightarrow> mean < 45)
     \<and> (cluster_color markers = ''#fc8d59'' \<longleftrightarrow> 45 \<le> mean \<and> mean < 50)
     \<and> (cluster_color markers = ''#91cf60'' \<longleftrightarrow> 50 \<le> mean \<and> mean < 55)
     \<and> (cluster_color markers = ''#1a9850'' \<longleftrightarrow> 55 \<le> mean)"
    by (simp add: col)
  show ?thesis
    unfolding Let_def
    using sc pos avg bands
    unfolding reds_def oranges_def lights_def darks_def others_def n_def mean_def
    by blast
qed

theorem cluster_color_bands_of_mean_witness:
  "cluster_sum_count [colored_marker ''#d73027'', colored_marker ''#999999'', colored_marker ''#d73027'',
      colored_marker ''#fc8d59'', colored_marker ''#fc8d59'', colored_marker ''#fc8d59''] = (225, 5)
   \<and> cluster_average [colored_marker ''#d73027'', colored_marker ''#999999'', colored_marker ''#d73027'',
      colored_marker ''#fc8d59'', colored_marker ''#fc8d59'', colored_marker ''#fc8d59''] = 45
   \<and> cluster_color [colored_marker ''#d73027'', colored_marker ''#999999'', colored_marker ''#d73027'',
      colored_marker ''#fc8d59'', colored_marker ''#fc8d59'', colored_marker ''#fc8d59''] = ''#fc8d59''"
proof -
  have some: "\<exists>m\<in>set [colored_marker ''#d73027'', colored_marker ''#999999'',
      colored_marker ''#d73027'', colored_marker ''#fc8d59'', colored_marker ''#fc8d59'',
      colored_marker ''#fc8d59'']. contributes m"
    by (simp add: contributes_def colored_marker_def)
  from cluster_color_bands_of_mean [OF some] show ?thesis
    by (simp add: colored_marker_def other_color_def contributes_def)
qed


lemma filter_contributes_nongray:
  "filter contributes (filter (\<lambda>m. fillColor m \<noteq> Some ''#999999'') ms) = filter contributes ms"
  by (induction ms) (auto simp: contributes_def split: option.splits)

lemma all_gray_no_contribution:
  "\<forall>m\<in>set ms. fillColor m = Some ''#999999'' \<Longrightarrow> filter contributes ms = []"
  by (induction ms) (auto simp: contributes_def)

text \<open>
  Claim C2. A gray marker leaves the sum and the count as they are, so a cluster has
  the sum and the count of its markers that are not gray; and a cluster whose markers
  are all gray has the count zero and is drawn gray itself.
\<close>

theorem gray_markers_excluded:
  \<open>cluster_sum_count markers =
     cluster_sum_count (filter (\<lambda>m. fillColor m \<noteq> Some ''#999999'') markers)
   \<and> (\<forall>m acc. fillColor m = Some ''#999999'' \<longrightarrow> cluster_step m acc = acc)
   \<and> ((\<forall>m\<in>set markers. fillColor m = Some ''#999999'') \<longrightarrow>
        cluster_sum_count markers = (0, 0)
      \<and> cluster_color markers = ''#999999''
      \<and> icon_html (iconCreateFunction markers) =
          ''<div style="background-color: #999999; width: 100%; height: 100%; border-radius: 50%; display: flex; align-items: center; justify-content: center;"><span style="color: white; font-weight: bold;">''
          @ decimal (length markers) @ ''</span></div>'')\<close>
proof (intro conjI allI impI)
  show "cluster_sum_count markers =
          cluster_sum_count (filter (\<lambda>m. fillColor m \<noteq> Some ''#999999'') markers)"
    by (simp only: cluster_sum_count_eq filter_contributes_nongray)
next
  fix m :: marker and acc :: "int \<times> nat"
  assume "fillColor m = Some ''#999999''"
  then show "cluster_step m acc = acc"
    by (simp add: cluster_step_cases contributes_def)
next
  assume gray: "\<forall>m\<in>set markers. fillColor m = Some ''#999999''"
  then show sc: "cluster_sum_count markers = (0, 0)"
    by (simp add: cluster_sum_count_eq all_gray_no_contribution)
  then show col: "cluster_color markers = ''#999999''"
    by (simp add: cluster_color_def)
  then show \<open>icon_html (iconCreateFunction markers) =
          ''<div style="background-color: #999999; width: 100%; height: 100%; border-radius: 50%; display: flex; align-items: center; justify-content: center;"><span style="color: white; font-weight: bold;">''
          @ decimal (length markers) @ ''</span></div>''\<close>
    by (simp add: iconCreateFunction_def Let_def)
qed

theorem gray_markers_excluded_witness:
  "cluster_sum_count [colored_marker ''#999999'', colored_marker ''#1a9850'', colored_marker ''#999999'']
     = cluster_sum_count [colored_marker ''#1a9850'']
   \<and> cluster_sum_count [colored_marker ''#1a9850''] = (57, 1)
   \<and> cluster_step (colored_marker ''#999999'') (57, 1) = (57, 1)
   \<and> cluster_sum_count [colored_marker ''#999999'', colored_marker ''#999999''] = (0, 0)
   \<and> cluster_color [colored_marker ''#999999'', colored_marker ''#999999''] = ''#999999''"
proof -
  have a: "cluster_sum_count [colored_marker ''#999999'', colored_marker ''#1a9850'', colored_marker ''#999999'']
     = cluster_sum_count [colored_marker ''#1a9850'']"
    using gray_markers_excluded
      [of "[colored_marker ''#999999'', colored_marker ''#1a9850'', colored_marker ''#999999'']"]
    by (simp add: colored_marker_def)
  have b: "cluster_step (colored_marker ''#999999'') (57, 1) = (57, 1)"
    using gray_markers_excluded [of "[]"] by (simp add: colored_marker_def)
  have g: "\<forall>m\<in>set [colored_marker ''#999999'', colored_marker ''#999999''].
             fillColor m = Some ''#999999''"
    by (simp add: colored_marker_def)
  have c: "cluster_sum_count [colored_marker ''#999999'', colored_marker ''#999999''] = (0, 0)
       \<and> cluster_color [colored_marker ''#999999'', colored_marker ''#999999''] = ''#999999''"
    using gray_markers_excluded [of "[colored_marker ''#999999'', colored_marker ''#999999'']"] g
    by blast
  have d: "cluster_sum_count [colored_marker ''#1a9850''] = (57, 1)"
    by (simp add: cluster_sum_count_def cluster_step_def colored_marker_def reverse_avg_def)
  show ?thesis using a b c d by blast
qed

text \<open>
  Claim C9, as stated, at a marker whose stored colour is the empty string: it is none
  of the five colours, and the loop skips it.
\<close>

theorem empty_color_is_skipped:
  "fillColor (colored_marker []) = Some []
   \<and> [] \<notin> {''#d73027'', ''#fc8d59'', ''#91cf60'', ''#1a9850'', ''#999999''}
   \<and> cluster_step (colored_marker []) (0, 0) = (0, 0)
   \<and> cluster_sum_count [colored_marker ''#d73027'', colored_marker []] = (42, 1)"
  by (simp add: cluster_sum_count_def cluster_step_def colored_marker_def reverse_avg_def)

lemma reverse_avg_default:
  "c \<notin> {''#d73027'', ''#fc8d59'', ''#91cf60'', ''#1a9850'', ''#999999''} \<Longrightarrow> reverse_avg c = 50"
  by (simp add: reverse_avg_def)

text \<open>
  Claim C9, amended. A marker whose stored colour is a non-empty string other than
  the five colours of the classifier is not skipped: it adds 50 to the sum and 1 to
  the count, wherever it stands in the cluster.
\<close>

theorem unrecognized_color_counts_as_50:
  assumes col: "fillColor m = Some c"
    and nonempty: "c \<noteq> []"
    and other: "c \<notin> {''#d73027'', ''#fc8d59'', ''#91cf60'', ''#1a9850'', ''#999999''}"
  shows "cluster_step m (s, k) = (s + 50, k + 1)
       \<and> cluster_sum_count (before @ m # after) =
           (fst (cluster_sum_count (before @ after)) + 50,
            snd (cluster_sum_count (before @ after)) + 1)"
proof -
  have c: "contributes m"
    using col nonempty other by (simp add: contributes_def)
  have v: "reverse_avg (the (fillColor m)) = 50"
    using col other by (simp add: reverse_avg_default)
  show ?thesis
    by (simp add: cluster_step_cases cluster_sum_count_eq c v)
qed

theorem unrecognized_color_counts_as_50_witness:
  "cluster_step (colored_marker ''#123456'') (42, 1) = (92, 2)
   \<and> cluster_sum_count [colored_marker ''#d73027'', colored_marker ''#123456'', colored_marker ''#999999'']
       = (92, 2)"
proof -
  have "cluster_sum_count ([colored_marker ''#d73027''] @ [colored_marker ''#999999'']) = (42, 1)"
    by (simp add: cluster_sum_count_def cluster_step_def colored_marker_def reverse_avg_def)
  then show ?thesis
    using unrecognized_color_counts_as_50
      [of "colored_marker ''#123456''" "''#123456''" 42 1 "[colored_marker ''#d73027'']"
          "[colored_marker ''#999999'']"]
    by (simp add: colored_marker_def)
qed


section \<open>Properties of the navigation\<close>

lemma find_marker_None:
  "find_marker n k ms = None \<longleftrightarrow> (\<forall>m\<in>set ms. \<not> matches_pair n k m)"
  by (induction ms) (auto simp: matches_pair_def split: option.splits)

lemma find_marker_Some:
  "find_marker n k ms = Some t \<Longrightarrow>
     \<exists>before after. ms = before @ t # after \<and> matches_pair n k t
        \<and> (\<forall>m\<in>set before. \<not> matches_pair n k m)"
proof (induction ms)
  case Nil
  then show ?case by simp
next
  case (Cons m ms)
  show ?case
  proof (cases "matches_pair n k m")
    case True
    with Cons.prems have "t = m"
      by (auto simp: matches_pair_def split: option.splits)
    with True have "m # ms = [] @ t # ms \<and> matches_pair n k t \<and> (\<forall>x\<in>set []. \<not> matches_pair n k x)"
      by simp
    then show ?thesis by blast
  next
    case False
    with Cons.prems have "find_marker n k ms = Some t"
      by (auto simp: matches_pair_def split: option.splits if_splits)
    from Cons.IH [OF this] obtain before after where
      "ms = before @ t # after" "matches_pair n k t" "\<forall>x\<in>set before. \<not> matches_pair n k x"
      by blast
    with False have "m # ms = (m # before) @ t # after \<and> matches_pair n k t
        \<and> (\<forall>x\<in>set (m # before). \<not> matches_pair n k x)"
      by simp
    then show ?thesis by blast
  qed
qed

text \<open>
  Claim C6. When some marker of the cluster group belongs to a school with the selected
  name and the selected municipality, navigation resolves to the first such marker:
  every marker before it differs in the name or in the municipality, so a school that
  only shares the name is passed over. The view moves to that school's coordinates at
  zoom 15, and the timer set for one second later opens that marker's popup.
\<close>

theorem navigation_resolves_pair:
  assumes present: "\<exists>m\<in>set (clusterLayers st). matches_pair schoolName schoolKommune m"
  shows "\<exists>before target after school.
           clusterLayers st = before @ target # after
         \<and> (\<forall>m\<in>set before. \<not> matches_pair schoolName schoolKommune m)
         \<and> schoolData target = Some school
         \<and> name school = schoolName \<and> kommune school = schoolKommune
         \<and> find_marker schoolName schoolKommune (clusterLayers st) = Some target
         \<and> zoomToSchool schoolName schoolKommune st =
             st\<lparr>view := ((lat school, lng school), 15),
                timers := timers st @ [(1000, OpenPopupOf target)]\<rparr>
         \<and> (\<forall>reveal st'. openPopup (open_popup_callback reveal target st') = Some target)"
proof -
  from present have "find_marker schoolName schoolKommune (clusterLayers st) \<noteq> None"
    by (simp add: find_marker_None)
  then obtain target where found: "find_marker schoolName schoolKommune (clusterLayers st) = Some target"
    by blast
  from find_marker_Some [OF found] obtain before after where
    split: "clusterLayers st = before @ target # after"
    and hit: "matches_pair schoolName schoolKommune target"
    and first: "\<forall>m\<in>set before. \<not> matches_pair schoolName schoolKommune m"
    by blast
  from hit obtain school where
    rec: "schoolData target = Some school" "name school = schoolName" "kommune school = schoolKommune"
    by (auto simp: matches_pair_def split: option.splits)
  have zoom: "zoomToSchool schoolName schoolKommune st =
             st\<lparr>view := ((lat school, lng school), 15),
                timers := timers st @ [(1000, OpenPopupOf target)]\<rparr>"
    by (simp add: zoomToSchool_def found rec)
  have pop: "\<forall>reveal st'. openPopup (open_popup_callback reveal target st') = Some target"
    by (simp add: open_popup_callback_def)
  from split first rec found zoom pop show ?thesis
    by blast
qed

text \<open>
  Claim C7. When no marker of the cluster group belongs to a school with the given name
  and municipality, navigation only writes the failure to the console: the view, the
  open popup, the pending timers, the drawn layers and the alerts stay as they were.
\<close>

theorem navigation_not_found:
  assumes absent: "\<forall>m\<in>set (clusterLayers st). \<not> matches_pair schoolName schoolKommune m"
  shows "zoomToSchool schoolName schoolKommune st =
           st\<lparr>console := console st @ [MarkerNotFound schoolName schoolKommune]\<rparr>
       \<and> view (zoomToSchool schoolName schoolKommune st) = view st
       \<and> openPopup (zoomToSchool schoolName schoolKommune st) = openPopup st
       \<and> timers (zoomToSchool schoolName schoolKommune st) = timers st
       \<and> drawnLayers (zoomToSchool schoolName schoolKommune st) = drawnLayers st
       \<and> alerts (zoomToSchool schoolName schoolKommune st) = alerts st"
proof -
  from absent have "find_marker schoolName schoolKommune (clusterLayers st) = None"
    by (simp add: find_marker_None)
  then show ?thesis
    by (simp add: zoomToSchool_def)
qed


lemma two_towns_layers:
  "clusterLayers two_towns = [marker_of nordre_oslo, marker_of nordre_bergen]"
  by (simp add: two_towns_def)

theorem navigation_resolves_pair_witness:
  "(\<exists>m\<in>set (clusterLayers two_towns). matches_pair ''Nordre skole'' ''Bergen'' m)
   \<and> name nordre_oslo = name nordre_bergen
   \<and> find_marker ''Nordre skole'' ''Bergen'' (clusterLayers two_towns) = Some (marker_of nordre_bergen)
   \<and> zoomToSchool ''Nordre skole'' ''Bergen'' two_towns =
       two_towns\<lparr>view := ((604 / 10, 53 / 10), 15),
                  timers := [(1000, OpenPopupOf (marker_of nordre_bergen))]\<rparr>"
proof -
  have present: "\<exists>m\<in>set (clusterLayers two_towns). matches_pair ''Nordre skole'' ''Bergen'' m"
    by (simp add: two_towns_layers matches_pair_def marker_of_def nordre_bergen_def
        nordre_oslo_def sample_school_def)
  have same: "name nordre_oslo = name nordre_bergen"
    by (simp add: nordre_bergen_def nordre_oslo_def sample_school_def)
  from navigation_resolves_pair [OF present] obtain before target after school where
    split: "clusterLayers two_towns = before @ target # after"
    and first: "\<forall>m\<in>set before. \<not> matches_pair ''Nordre skole'' ''Bergen'' m"
    and rec: "schoolData target = Some school" "kommune school = ''Bergen''"
    and found: "find_marker ''Nordre skole'' ''Bergen'' (clusterLayers two_towns) = Some target"
    and zoom: "zoomToSchool ''Nordre skole'' ''Bergen'' two_towns =
             two_towns\<lparr>view := ((lat school, lng school), 15),
                timers := timers two_towns @ [(1000, OpenPopupOf target)]\<rparr>"
    by blast
  have "find_marker ''Nordre skole'' ''Bergen'' (clusterLayers two_towns) = Some (marker_of nordre_bergen)"
    by (simp add: two_towns_layers marker_of_def nordre_bergen_def nordre_oslo_def sample_school_def)
  with found have target: "target = marker_of nordre_bergen"
    by simp
  with rec have school: "school = nordre_bergen"
    by (simp add: marker_of_def)
  have coords: "lat nordre_bergen = 604 / 10" "lng nordre_bergen = 53 / 10"
    by (simp_all add: nordre_bergen_def)
  have "timers two_towns = []"
    by (simp add: two_towns_def initial_app_def)
  with zoom target school coords found present same show ?thesis
    by simp
qed

theorem navigation_not_found_witness:
  "zoomToSchool ''Nordre skole'' ''Trondheim'' two_towns =
       two_towns\<lparr>console := [MarkerNotFound ''Nordre skole'' ''Trondheim'']\<rparr>
   \<and> view (zoomToSchool ''Nordre skole'' ''Trondheim'' two_towns) = view two_towns
   \<and> openPopup (zoomToSchool ''Nordre skole'' ''Trondheim'' two_towns) = None
   \<and> timers (zoomToSchool ''Nordre skole'' ''Trondheim'' two_towns) = []"
proof -
  have absent: "\<forall>m\<in>set (clusterLayers two_towns). \<not> matches_pair ''Nordre skole'' ''Trondheim'' m"
    by (simp add: two_towns_layers matches_pair_def marker_of_def nordre_bergen_def
        nordre_oslo_def sample_school_def)
  have init: "console two_towns = []" "openPopup two_towns = None" "timers two_towns = []"
    by (simp_all add: two_towns_def initial_app_def)
  from navigation_not_found [OF absent] init show ?thesis
    by simp
qed


section \<open>Properties of the loader\<close>

text \<open>
  Claim C8. When the response has a non-success status (its \<open>ok\<close> flag is false) or
  its body does not parse, the loader writes the error to the console, shows one alert
  and changes nothing else, in both copies of the script. From the page as \<open>initMap\<close>
  leaves it this means: no marker in the cluster group, no key registered, the cluster
  group not on the map, the school list empty, the search not initialised, no timer
  pending and the view where it was.
\<close>

theorem load_failure_aborts:
  assumes failed: "\<not> ok \<or> body = None"
  shows "loadSchoolData (Response ok status body) st =
           st\<lparr>console := console st
                @ [ErrorLoadingSchoolData (if \<not> ok then HttpError status else SyntaxError)],
              alerts := alerts st @ [''Failed to load school data. Please ensure school-data.json exists.'']\<rparr>
       \<and> loadSchoolData_part_000 (Response ok status body) st =
           st\<lparr>console := console st
                @ [ErrorLoadingSchoolData (if \<not> ok then HttpError status else SyntaxError)],
              alerts := alerts st @ [''Failed to load school data. Please ensure school-data.json exists.'']\<rparr>
       \<and> alerts (loadSchoolData (Response ok status body) (initial_app elements)) =
           [''Failed to load school data. Please ensure school-data.json exists.'']
       \<and> schoolsData (loadSchoolData (Response ok status body) (initial_app elements)) = []
       \<and> clusterLayers (loadSchoolData (Response ok status body) (initial_app elements)) = []
       \<and> schoolMarkers (loadSchoolData (Response ok status body) (initial_app elements)) = Map.empty
       \<and> \<not> clusterOnMap (loadSchoolData (Response ok status body) (initial_app elements))
       \<and> \<not> searchInitialized (loadSchoolData (Response ok status body) (initial_app elements))
       \<and> timers (loadSchoolData (Response ok status body) (initial_app elements)) = []
       \<and> view (loadSchoolData (Response ok status body) (initial_app elements)) =
           view (initial_app elements)"
proof (cases ok)
  case False
  then show ?thesis
    by (simp add: loadSchoolData_def loadSchoolData_part_000_def on_load_error_def initial_app_def)
next
  case True
  with failed have "body = None" by simp
  with True show ?thesis
    by (simp add: loadSchoolData_def loadSchoolData_part_000_def on_load_error_def initial_app_def)
qed

theorem load_failure_aborts_witness:
  "loadSchoolData (Response False 404 None) (initial_app True) =
     (initial_app True)\<lparr>console := [ErrorLoadingSchoolData (HttpError 404)],
        alerts := [''Failed to load school data. Please ensure school-data.json exists.'']\<rparr>
   \<and> loadSchoolData (Response True 200 None) (initial_app True) =
     (initial_app True)\<lparr>console := [ErrorLoadingSchoolData SyntaxError],
        alerts := [''Failed to load school data. Please ensure school-data.json exists.'']\<rparr>
   \<and> schoolsData (loadSchoolData (Response False 404 None) (initial_app True)) = []
   \<and> clusterLayers (loadSchoolData (Response True 200 None) (initial_app True)) = []"
proof -
  have init: "console (initial_app True) = []" "alerts (initial_app True) = []"
    by (simp_all add: initial_app_def)
  have a: "\<not> False \<or> (None :: dataset option) = None" by simp
  have b: "\<not> True \<or> (None :: dataset option) = None" by simp
  from load_failure_aborts [OF a, of 404 "initial_app True" True] have
    "loadSchoolData (Response False 404 None) (initial_app True) =
       (initial_app True)\<lparr>console := console (initial_app True) @ [ErrorLoadingSchoolData (HttpError 404)],
          alerts := alerts (initial_app True)
            @ [''Failed to load school data. Please ensure school-data.json exists.'']\<rparr>"
    and "schoolsData (loadSchoolData (Response False 404 None) (initial_app True)) = []"
    by auto
  moreover from load_failure_aborts [OF b, of 200 "initial_app True" True] have
    "loadSchoolData (Response True 200 None) (initial_app True) =
       (initial_app True)\<lparr>console := console (initial_app True) @ [ErrorLoadingSchoolData SyntaxError],
          alerts := alerts (initial_app True)
            @ [''Failed to load school data. Please ensure school-data.json exists.'']\<rparr>"
    and "clusterLayers (loadSchoolData (Response True 200 None) (initial_app True)) = []"
    by auto
  ultimately show ?thesis
    by (simp add: init)
qed

text \<open>For contrast: a document that parses is rendered.\<close>

lemma createSchoolMarker_sample:
  "\<exists>m. createSchoolMarker y (sample_school n k) = Inr m \<and> schoolData m = Some (sample_school n k)"
  by (simp add: createSchoolMarker_def createPopupContent_def currentScores_def sample_school_def Let_def)

lemma load_success_renders:
  "schoolsData (loadSchoolData
      (Response True 200 (Some \<lparr>schools = Some [nordre_oslo], currentYear = Some ''2026-27'', mapConfig = None\<rparr>))
      (initial_app True)) = [nordre_oslo]
   \<and> length (clusterLayers (loadSchoolData
      (Response True 200 (Some \<lparr>schools = Some [nordre_oslo], currentYear = Some ''2026-27'', mapConfig = None\<rparr>))
      (initial_app True))) = 1
   \<and> searchInitialized (loadSchoolData
      (Response True 200 (Some \<lparr>schools = Some [nordre_oslo], currentYear = Some ''2026-27'', mapConfig = None\<rparr>))
      (initial_app True))
   \<and> alerts (loadSchoolData
      (Response True 200 (Some \<lparr>schools = Some [nordre_oslo], currentYear = Some ''2026-27'', mapConfig = None\<rparr>))
      (initial_app True)) = []"
proof -
  obtain m where m: "createSchoolMarker (Some ''2026-27'') nordre_oslo = Inr m"
    using createSchoolMarker_sample [of "Some ''2026-27''" "''Nordre skole''" "''Oslo''"]
    by (auto simp: nordre_oslo_def)
  show ?thesis
    by (simp add: loadSchoolData_def on_data_def initial_app_def m Let_def initializeSearch_def)
qed


section \<open>String lemmas and properties of the popup\<close>

lemma startsWith_append: "startsWith (q @ t) q"
  by (induction q) simp_all

lemma includes_suffix: "includes_str (q @ t) q"
  by (cases "q @ t") (simp_all add: startsWith_append, metis startsWith_append)

lemma includes_appendI: "includes_str (p @ q @ t) q"
proof (induction p)
  case Nil
  show ?case by (simp add: includes_suffix)
next
  case (Cons c p)
  then show ?case by simp
qed

lemma startsWith_iff: "startsWith s q \<longleftrightarrow> (\<exists>t. s = q @ t)"
proof (induction s q rule: startsWith.induct)
  case (1 s)
  show ?case by simp
next
  case (2 q qs)
  show ?case by simp
next
  case (3 c s q qs)
  then show ?case by auto
qed

lemma includes_iff: "includes_str s q \<longleftrightarrow> (\<exists>p t. s = p @ q @ t)"
proof
  assume "includes_str s q"
  then show "\<exists>p t. s = p @ q @ t"
  proof (induction s)
    case Nil
    then show ?case by simp
  next
    case (Cons c s)
    from Cons.prems have "startsWith (c # s) q \<or> includes_str s q" by simp
    then show ?case
    proof
      assume "startsWith (c # s) q"
      then obtain t where "c # s = q @ t" by (auto simp: startsWith_iff)
      then have "c # s = [] @ q @ t" by simp
      then show ?thesis by blast
    next
      assume "includes_str s q"
      with Cons.IH obtain p t where "s = p @ q @ t" by blast
      then have "c # s = (c # p) @ q @ t" by simp
      then show ?thesis by blast
    qed
  qed
next
  assume "\<exists>p t. s = p @ q @ t"
  then show "includes_str s q" by (auto simp: includes_appendI)
qed

lemma floor_rat_divide_numeral:
  "\<lfloor>(numeral a :: rat) / numeral b\<rfloor> = numeral a div numeral b"
  using floor_divide_of_int_eq [of "numeral a" "numeral b", where ?'a = rat] by simp

lemma toFixed1_53: "toFixed1 53 = ''53.0''"
  by (simp add: toFixed1_def decimal.simps digit_char_def floor_rat_divide_numeral)

lemma decimal_2: "decimal 2 = ''2''"
  by (simp add: decimal.simps digit_char_def)


text \<open>
  Claim C3, as stated, at a record with data, average 53 and 2 valid subjects: the popup
  that \<open>static/js/main.js\<close> generates does not contain the wording \<open>basert p\<close>a-ring\<open> 2 fag\<close>.
\<close>

theorem popup_wording_counterexample:
  "hasData (sample_school ''Eide skole'' ''Grimstad'')
   \<and> average (sample_school ''Eide skole'' ''Grimstad'') = Some 53
   \<and> validScoresCount (sample_school ''Eide skole'' ''Grimstad'') = 2
   \<and> \<not> isl (createPopupContent None (sample_school ''Eide skole'' ''Grimstad''))
   \<and> \<not> includes_str (projr (createPopupContent None (sample_school ''Eide skole'' ''Grimstad'')))
         (''basert p'' @ [CHR 0xE5] @ '' 2 fag'')"
  by (simp add: createPopupContent_def currentScores_def historyHtml_def sample_school_def
      formatScore_def int_to_string_def toFixed1_53 decimal.simps digit_char_def)

text \<open>
  Claim C3, amended. For every record with data, average 53 and 2 valid subjects,
  whatever its three scores are, the popup of \<open>static/js/main.js\<close> contains the line
  \<open>Snitt: 53.0 (2 fag)\<close> in its markup, and the popup of the second copy of the script
  contains \<open>Gjennomsnitt: 53.0 (basert p\<close>a-ring\<open> 2 fag)\<close>: both show the stored average
  and the stored count.
\<close>

theorem popup_average_line:
  assumes "hasData school" and "average school = Some 53" and "validScoresCount school = 2"
  shows \<open>(\<exists>html. createPopupContent data_year school = Inr html
            \<and> includes_str html ''<b>Snitt:</b> 53.0 <small>(2 fag)</small>'')
       \<and> (\<exists>html. createPopupContent_part_000 school = Inr html
            \<and> includes_str html
                 (''<b>Gjennomsnitt:</b> 53.0 (basert p'' @ [CHR 0xE5] @ '' 2 fag)''))\<close>
proof
  have \<open>createPopupContent data_year school =
      Inr ((nl
             @ ''        <div class="popup-school">'' @ nl
             @ ''            <div class="popup-header">'' @ nl
             @ ''                <span class="popup-name">'' @ name school @ ''</span>'' @ nl
             @ ''                <span class="popup-year">''
             @ (case data_year of None \<Rightarrow> [] | Some y \<Rightarrow> y) @ ''</span>'' @ nl
             @ ''            </div>'' @ nl
             @ ''            <div class="popup-kommune">'' @ kommune school @ ''</div>'' @ nl
             @ ''            <div class="popup-current">''
             @ ''<b>Engelsk:</b> '' @ formatScore (engelsk school) @ ''&nbsp;&nbsp;'' @ nl
             @ ''           <b>Lesing:</b> '' @ formatScore (lesing school) @ ''&nbsp;&nbsp;'' @ nl
             @ ''           <b>Regning:</b> '' @ formatScore (regning school) @ ''<br>'' @ nl
             @ ''           '')
           @ ''<b>Snitt:</b> 53.0 <small>(2 fag)</small>''
           @ (''</div>'' @ nl @ ''            '' @ historyHtml school @ nl @ ''        </div>''))\<close>
    using assms
    by (simp add: createPopupContent_def currentScores_def toFixed1_53 decimal_2)
  then show \<open>\<exists>html. createPopupContent data_year school = Inr html
            \<and> includes_str html ''<b>Snitt:</b> 53.0 <small>(2 fag)</small>''\<close>
    using includes_appendI by blast
next
  have \<open>createPopupContent_part_000 school =
      Inr ((nl
                @ ''            <b>'' @ name school @ ''</b><br>'' @ nl
                @ ''            <b>Kommune:</b> '' @ kommune school @ ''<br>'' @ nl
                @ ''            <br>'' @ nl
                @ ''            <b>Engelsk:</b> '' @ formatScore (engelsk school) @ ''<br>'' @ nl
                @ ''            <b>Lesing:</b> '' @ formatScore (lesing school) @ ''<br>'' @ nl
                @ ''            <b>Regning:</b> '' @ formatScore (regning school) @ ''<br>'' @ nl
                @ ''            '')
           @ (''<b>Gjennomsnitt:</b> 53.0 (basert p'' @ [CHR 0xE5] @ '' 2 fag)'')
           @ (nl @ ''        ''))\<close>
    using assms
    by (simp add: createPopupContent_part_000_def toFixed1_53 decimal_2)
  then show \<open>\<exists>html. createPopupContent_part_000 school = Inr html
            \<and> includes_str html
                 (''<b>Gjennomsnitt:</b> 53.0 (basert p'' @ [CHR 0xE5] @ '' 2 fag)'')\<close>
    using includes_appendI by blast
qed

theorem popup_average_line_witness:
  \<open>(\<exists>html. createPopupContent (Some ''2026-27'') (sample_school ''Eide skole'' ''Grimstad'') = Inr html
            \<and> includes_str html ''<b>Snitt:</b> 53.0 <small>(2 fag)</small>'')
       \<and> (\<exists>html. createPopupContent_part_000 (sample_school ''Eide skole'' ''Grimstad'') = Inr html
            \<and> includes_str html
                 (''<b>Gjennomsnitt:</b> 53.0 (basert p'' @ [CHR 0xE5] @ '' 2 fag)''))\<close>
proof -
  have "hasData (sample_school ''Eide skole'' ''Grimstad'')"
    and "average (sample_school ''Eide skole'' ''Grimstad'') = Some 53"
    and "validScoresCount (sample_school ''Eide skole'' ''Grimstad'') = 2"
    by (simp_all add: sample_school_def)
  then show ?thesis
    by (rule popup_average_line)
qed


lemma includes_trans:
  assumes "includes_str a b" and "includes_str b c"
  shows "includes_str a c"
proof -
  from assms obtain p t p' t' where "a = p @ b @ t" "b = p' @ c @ t'"
    by (auto simp: includes_iff)
  then have "a = (p @ p') @ c @ (t' @ t)"
    by simp
  then show ?thesis
    using includes_appendI by metis
qed

lemma includes_concat_member:
  assumes "x \<in> set xs"
  shows "includes_str (concat xs) x"
proof -
  from assms obtain ys zs where "xs = ys @ x # zs"
    by (auto dest: split_list)
  then have "concat xs = concat ys @ x @ concat zs"
    by simp
  then show ?thesis
    by (simp add: includes_appendI)
qed

lemma escape_char_no_angle: "CHR ''<'' \<notin> set (escape_char c) \<and> CHR ''>'' \<notin> set (escape_char c)"
  by (simp add: escape_char_def)

lemma escapeHtml_no_angle: "CHR ''<'' \<notin> set (escapeHtml t) \<and> CHR ''>'' \<notin> set (escapeHtml t)"
  by (induction t) (simp_all add: escapeHtml_def escape_char_no_angle)

lemma includes_history_row: "includes_str (history_row h) (''<td>'' @ year h @ ''</td>'')"
proof -
  have "\<exists>t. history_row h = (''<tr>'' @ nl @ ''                '') @ (''<td>'' @ year h @ ''</td>'') @ t"
    by (simp add: history_row_def Let_def)
  then show ?thesis
    using includes_appendI by metis
qed

lemma includes_historyHtml:
  assumes "h \<in> set (history school)"
  shows "includes_str (historyHtml school) (history_row h)"
proof -
  from assms have ne: "length (history school) > 0"
    by (cases "history school") simp_all
  from assms have "history_row h \<in> set (map history_row (rev (history school)))"
    by simp
  then have "includes_str (concat (map history_row (rev (history school)))) (history_row h)"
    by (rule includes_concat_member)
  moreover have "\<exists>p t. historyHtml school = p @ concat (map history_row (rev (history school))) @ t"
  proof -
    have \<open>historyHtml school =
        (nl
          @ ''            <div class="popup-history">'' @ nl
          @ ''                <b>Historikk</b>'' @ nl
          @ ''                <table class="popup-history-table">'' @ nl
          @ ''                    <thead>'' @ nl
          @ ''                        <tr><th>'' @ [CHR 0xC5] @ ''r</th><th>Eng</th><th>Les</th><th>Reg</th><th>Snitt</th></tr>'' @ nl
          @ ''                    </thead>'' @ nl
          @ ''                    <tbody>'')
        @ concat (map history_row (rev (history school)))
        @ (''</tbody>'' @ nl
          @ ''                </table>'' @ nl
          @ ''            </div>'')\<close>
      using ne by (simp add: historyHtml_def Let_def)
    then show ?thesis by blast
  qed
  then have "includes_str (historyHtml school) (concat (map history_row (rev (history school))))"
    by (simp add: includes_iff)
  ultimately show ?thesis
    using includes_trans by blast
qed

lemma popup_shape:
  assumes "createPopupContent data_year school = Inr html"
  shows \<open>\<exists>scores. html =
           (nl
             @ ''        <div class="popup-school">'' @ nl
             @ ''            <div class="popup-header">'' @ nl
             @ ''                '') @ (''<span class="popup-name">'' @ name school @ ''</span>'')
           @ (nl @ ''                <span class="popup-year">''
             @ (case data_year of None \<Rightarrow> [] | Some y \<Rightarrow> y) @ ''</span>'' @ nl
             @ ''            </div>'' @ nl
             @ ''            '') @ (''<div class="popup-kommune">'' @ kommune school @ ''</div>'')
           @ (nl @ ''            <div class="popup-current">'' @ scores @ ''</div>'' @ nl
             @ ''            '') @ historyHtml school @ (nl @ ''        </div>'')\<close>
  using assms
  by (auto simp: createPopupContent_def split: sum.splits)

lemma result_item_shape:
  \<open>result_item query school =
     (nl @ ''                <div class="search-result-item" '')
     @ (''data-school-name="'' @ escapeHtml (name school)
         @ ''" data-school-kommune="'' @ escapeHtml (kommune school) @ ''">'')
     @ (nl @ ''                    '')
     @ (''<div class="search-result-name">'' @ highlightMatch (name school) query @ ''</div>'')
     @ (nl @ ''                    '')
     @ (''<div class="search-result-kommune">'' @ escapeHtml (kommune school) @ ''</div>'')
     @ (nl @ ''                </div>'' @ nl @ ''            '')\<close>
  by (simp add: result_item_def Let_def)

text \<open>
  Claim C10. Whenever the popup is generated, its markup contains the school's name,
  its municipality and the year of every history entry exactly as they are in the
  record, special characters included. A search result row carries the name and the
  municipality through \<open>escapeHtml\<close>, whose output has no angle bracket, so a name
  with \<open><\<close> is changed there.
\<close>

theorem popup_fields_unescaped:
  assumes popup: "createPopupContent data_year school = Inr html"
  shows \<open>includes_str html (''<span class="popup-name">'' @ name school @ ''</span>'')
       \<and> includes_str html (''<div class="popup-kommune">'' @ kommune school @ ''</div>'')
       \<and> (\<forall>h\<in>set (history school). includes_str html (''<td>'' @ year h @ ''</td>''))
       \<and> includes_str (result_item query school)
             (''data-school-name="'' @ escapeHtml (name school)
               @ ''" data-school-kommune="'' @ escapeHtml (kommune school) @ ''">'')
       \<and> includes_str (result_item query school)
             (''<div class="search-result-name">'' @ highlightMatch (name school) query @ ''</div>'')
       \<and> highlightMatch (name school) query = replace_matches (escapeHtml (name school)) query
       \<and> includes_str (result_item query school)
             (''<div class="search-result-kommune">'' @ escapeHtml (kommune school) @ ''</div>'')
       \<and> (\<forall>t. CHR ''<'' \<notin> set (escapeHtml t) \<and> CHR ''>'' \<notin> set (escapeHtml t))
       \<and> (CHR ''<'' \<in> set (name school) \<longrightarrow> escapeHtml (name school) \<noteq> name school)\<close>
proof (intro conjI ballI allI impI)
  from popup_shape [OF popup] obtain scores where html: \<open>html =
           (nl
             @ ''        <div class="popup-school">'' @ nl
             @ ''            <div class="popup-header">'' @ nl
             @ ''                '') @ (''<span class="popup-name">'' @ name school @ ''</span>'')
           @ (nl @ ''                <span class="popup-year">''
             @ (case data_year of None \<Rightarrow> [] | Some y \<Rightarrow> y) @ ''</span>'' @ nl
             @ ''            </div>'' @ nl
             @ ''            '') @ (''<div class="popup-kommune">'' @ kommune school @ ''</div>'')
           @ (nl @ ''            <div class="popup-current">'' @ scores @ ''</div>'' @ nl
             @ ''            '') @ historyHtml school @ (nl @ ''        </div>'')\<close>
    by blast
  show \<open>includes_str html (''<span class="popup-name">'' @ name school @ ''</span>'')\<close>
    by (subst html) (rule includes_appendI)
  have \<open>\<exists>p t. html = p @ (''<div class="popup-kommune">'' @ kommune school @ ''</div>'') @ t\<close>
    by (subst html) (metis append.assoc)
  then show \<open>includes_str html (''<div class="popup-kommune">'' @ kommune school @ ''</div>'')\<close>
    by (simp only: includes_iff)
  have \<open>\<exists>p t. html = p @ historyHtml school @ t\<close>
    by (subst html) (metis append.assoc)
  then have hist: "includes_str html (historyHtml school)"
    by (simp only: includes_iff)
  show "includes_str html (''<td>'' @ year h @ ''</td>'')" if "h \<in> set (history school)" for h
    using hist includes_historyHtml [OF that] includes_history_row [of h] includes_trans
    by blast
  show \<open>includes_str (result_item query school)
             (''data-school-name="'' @ escapeHtml (name school)
               @ ''" data-school-kommune="'' @ escapeHtml (kommune school) @ ''">'')\<close>
    by (subst result_item_shape) (rule includes_appendI)
  have \<open>\<exists>p t. result_item query school =
      p @ (''<div class="search-result-name">'' @ highlightMatch (name school) query @ ''</div>'') @ t\<close>
    by (subst result_item_shape) (metis append.assoc)
  then show \<open>includes_str (result_item query school)
             (''<div class="search-result-name">'' @ highlightMatch (name school) query @ ''</div>'')\<close>
    by (simp only: includes_iff)
  show "highlightMatch (name school) query = replace_matches (escapeHtml (name school)) query"
    by (simp add: highlightMatch_def)
  have \<open>\<exists>p t. result_item query school =
      p @ (''<div class="search-result-kommune">'' @ escapeHtml (kommune school) @ ''</div>'') @ t\<close>
    by (subst result_item_shape) (metis append.assoc)
  then show \<open>includes_str (result_item query school)
             (''<div class="search-result-kommune">'' @ escapeHtml (kommune school) @ ''</div>'')\<close>
    by (simp only: includes_iff)
  show "CHR ''<'' \<notin> set (escapeHtml t)" for t
    by (simp add: escapeHtml_no_angle)
  show "CHR ''>'' \<notin> set (escapeHtml t)" for t
    by (simp add: escapeHtml_no_angle)
  show "escapeHtml (name school) \<noteq> name school" if "CHR ''<'' \<in> set (name school)"
    using that escapeHtml_no_angle [of "name school"] by auto
qed


theorem popup_fields_unescaped_witness:
  \<open>\<exists>html. createPopupContent None (sample_school ''<i>Skole</i>'' ''A&B'') = Inr html
      \<and> includes_str html ''<span class="popup-name"><i>Skole</i></span>''
      \<and> includes_str html ''<div class="popup-kommune">A&B</div>''
      \<and> includes_str (result_item ''sko'' (sample_school ''<i>Skole</i>'' ''A&B''))
            ''data-school-name="&lt;i&gt;Skole&lt;/i&gt;" data-school-kommune="A&amp;B">''
      \<and> includes_str (result_item ''sko'' (sample_school ''<i>Skole</i>'' ''A&B''))
            ''<div class="search-result-kommune">A&amp;B</div>''\<close>
proof -
  have "\<exists>html. createPopupContent None (sample_school ''<i>Skole</i>'' ''A&B'') = Inr html"
    by (simp add: createPopupContent_def currentScores_def sample_school_def)
  then obtain html where
    popup: "createPopupContent None (sample_school ''<i>Skole</i>'' ''A&B'') = Inr html"
    by blast
  have fields: "name (sample_school ''<i>Skole</i>'' ''A&B'') = ''<i>Skole</i>''"
    "kommune (sample_school ''<i>Skole</i>'' ''A&B'') = ''A&B''"
    by (simp_all add: sample_school_def)
  have esc: "escapeHtml ''<i>Skole</i>'' = ''&lt;i&gt;Skole&lt;/i&gt;''" "escapeHtml ''A&B'' = ''A&amp;B''"
    by (simp_all add: escapeHtml_def escape_char_def)
  from popup_fields_unescaped [OF popup, of "''sko''"] popup show ?thesis
    by (simp add: fields esc)
qed


section \<open>Properties of the search\<close>

lemma mset_insert_sorted: "mset (insert_sorted cmp x xs) = add_mset x (mset xs)"
  by (induction xs) simp_all

lemma mset_array_sort: "mset (array_sort cmp xs) = mset xs"
  by (induction xs) (simp_all add: array_sort_def mset_insert_sorted)


lemma set_insert_sorted: "set (insert_sorted cmp x xs) = insert x (set xs)"
  using mset_insert_sorted [of cmp x xs] by (metis set_mset_add_mset_insert set_mset_mset)

lemma sorted_insert_sorted:
  assumes total: "\<And>a b. cmp a b \<le> 0 \<or> cmp b a \<le> 0"
    and trans: "\<And>a b c. cmp a b \<le> 0 \<Longrightarrow> cmp b c \<le> 0 \<Longrightarrow> cmp a c \<le> 0"
    and sorted: "sorted_wrt (\<lambda>a b. cmp a b \<le> 0) xs"
  shows "sorted_wrt (\<lambda>a b. cmp a b \<le> 0) (insert_sorted cmp x xs)"
  using sorted
proof (induction xs)
  case Nil
  show ?case by simp
next
  case (Cons y ys)
  show ?case
  proof (cases "cmp x y \<le> 0")
    case True
    with Cons.prems have "\<forall>z\<in>set ys. cmp x z \<le> 0"
      using trans by auto
    with True Cons.prems show ?thesis by simp
  next
    case False
    with total have "cmp y x \<le> 0" by blast
    with False Cons show ?thesis
      by (simp add: set_insert_sorted)
  qed
qed

lemma sorted_array_sort:
  assumes total: "\<And>a b. cmp a b \<le> 0 \<or> cmp b a \<le> 0"
    and trans: "\<And>a b c. cmp a b \<le> 0 \<Longrightarrow> cmp b c \<le> 0 \<Longrightarrow> cmp a c \<le> 0"
  shows "sorted_wrt (\<lambda>a b. cmp a b \<le> 0) (array_sort cmp xs)"
proof (induction xs)
  case Nil
  show ?case by (simp add: array_sort_def)
next
  case (Cons x xs)
  have "array_sort cmp (x # xs) = insert_sorted cmp x (array_sort cmp xs)"
    by (simp add: array_sort_def)
  with Cons show ?case
    using sorted_insert_sorted [of cmp "array_sort cmp xs" x] total trans by simp
qed

lemma sort_compare_le:
  "sort_compare lc q a b \<le> 0 \<longleftrightarrow>
     (startsWith (toLowerCase (name a)) q \<and> \<not> startsWith (toLowerCase (name b)) q)
     \<or> ((startsWith (toLowerCase (name a)) q \<longleftrightarrow> startsWith (toLowerCase (name b)) q)
        \<and> lc (name a) (name b) \<le> 0)"
  by (auto simp: sort_compare_def Let_def)

lemma sort_compare_total:
  assumes "\<forall>x y. lc x y \<le> 0 \<or> lc y x \<le> 0"
  shows "sort_compare lc q a b \<le> 0 \<or> sort_compare lc q b a \<le> 0"
  using assms by (auto simp: sort_compare_le)

lemma sort_compare_trans:
  assumes "\<forall>x y z. lc x y \<le> 0 \<and> lc y z \<le> 0 \<longrightarrow> lc x z \<le> 0"
    and "sort_compare lc q a b \<le> 0" and "sort_compare lc q b c \<le> 0"
  shows "sort_compare lc q a c \<le> 0"
  using assms unfolding sort_compare_le by blast


lemma matchingSchools_mset:
  "mset (matchingSchools lc data query) =
     mset (filter (\<lambda>school. includes_str (toLowerCase (name school)) (toLowerCase query)) data)"
  by (simp add: matchingSchools_def Let_def mset_array_sort)


lemma matchingSchools_sorted:
  assumes total: "\<forall>x y. lc x y \<le> 0 \<or> lc y x \<le> 0"
    and trans: "\<forall>x y z. lc x y \<le> 0 \<and> lc y z \<le> 0 \<longrightarrow> lc x z \<le> 0"
  shows "sorted_wrt (\<lambda>a b. sort_compare lc (toLowerCase query) a b \<le> 0)
           (matchingSchools lc data query)"
  unfolding matchingSchools_def Let_def
  by (rule sorted_array_sort) (use total trans sort_compare_total sort_compare_trans in blast)+

text \<open>
  Claim C4. Let \<open>localeCompare\<close> be a consistent comparison (total and transitive in
  "not after"). For every input whose trimmed text has at least two code units, the
  matches are exactly the schools of the list whose lower-cased name contains the
  lower-cased query, each as often as it is in the list; every match whose name starts
  with the query stands before every match whose name only contains it; two matches of
  the same group stand in the order of \<open>localeCompare\<close> on their names; and the result
  container shows the markup of these matches.
\<close>

theorem search_matches_and_order:
  fixes lc :: "string \<Rightarrow> string \<Rightarrow> int"
  assumes total: "\<forall>x y. lc x y \<le> 0 \<or> lc y x \<le> 0"
    and trans: "\<forall>x y z. lc x y \<le> 0 \<and> lc y z \<le> 0 \<longrightarrow> lc x z \<le> 0"
    and long: "2 \<le> length (trim val)"
  shows \<open>(let query = trim val;
            found = matchingSchools lc (schoolsData st) query;
            starts = (\<lambda>school :: school. startsWith (toLowerCase (name school)) (toLowerCase query))
        in mset found =
             mset (filter (\<lambda>school. includes_str (toLowerCase (name school)) (toLowerCase query))
                    (schoolsData st))
         \<and> (\<forall>i j. i < length found \<and> j < length found
                  \<and> starts (found ! i) \<and> \<not> starts (found ! j) \<longrightarrow> i < j)
         \<and> (\<forall>i j. i < j \<and> j < length found \<and> (starts (found ! i) \<longleftrightarrow> starts (found ! j))
                  \<longrightarrow> lc (name (found ! i)) (name (found ! j)) \<le> 0)
         \<and> resultsVisible (on_search_input read_back lc val st)
         \<and> resultsHtml (on_search_input read_back lc val st) =
             (if found = [] then ''<div class="no-results">Ingen skoler funnet</div>''
              else results_markup read_back query found))\<close>
proof -
  define query where "query = trim val"
  define found where "found = matchingSchools lc (schoolsData st) query"
  define starts :: "school \<Rightarrow> bool" where
    "starts = (\<lambda>school. startsWith (toLowerCase (name school)) (toLowerCase query))"
  have sorted: "sorted_wrt (\<lambda>a b. sort_compare lc (toLowerCase query) a b \<le> 0) found"
    unfolding found_def using total trans by (rule matchingSchools_sorted)
  have le: "sort_compare lc (toLowerCase query) (found ! i) (found ! j) \<le> 0"
    if "i < j" "j < length found" for i j
    using sorted that by (simp add: sorted_wrt_iff_nth_less)
  have members: "mset found =
      mset (filter (\<lambda>school. includes_str (toLowerCase (name school)) (toLowerCase query))
             (schoolsData st))"
    unfolding found_def by (rule matchingSchools_mset)
  have groups: "i < j"
    if "i < length found" "j < length found" "starts (found ! i)" "\<not> starts (found ! j)" for i j
  proof (rule ccontr)
    assume "\<not> i < j"
    moreover from that have "i \<noteq> j" by auto
    ultimately have "j < i" by simp
    from le [OF this that(1)] that(3,4) show False
      by (simp add: sort_compare_le starts_def)
  qed
  have within: "lc (name (found ! i)) (name (found ! j)) \<le> 0"
    if "i < j" "j < length found" "starts (found ! i) \<longleftrightarrow> starts (found ! j)" for i j
    using le [OF that(1,2)] that(3) by (auto simp: sort_compare_le starts_def)
  have visible: "resultsVisible (on_search_input read_back lc val st)"
    using long by (simp add: on_search_input_def performSearch_def Let_def)
  have markup: \<open>resultsHtml (on_search_input read_back lc val st) =
             (if found = [] then ''<div class="no-results">Ingen skoler funnet</div>''
              else results_markup read_back query found)\<close>
    using long by (simp add: on_search_input_def performSearch_def Let_def found_def query_def)
  show ?thesis
    unfolding Let_def
    using members groups within visible markup
    unfolding found_def query_def starts_def
    by blast
qed


lemma code_compare_total: "code_compare a b \<le> 0 \<or> code_compare b a \<le> 0"
  by (induction a b rule: code_compare.induct) auto

lemma code_compare_trans:
  "code_compare a b \<le> 0 \<Longrightarrow> code_compare b c \<le> 0 \<Longrightarrow> code_compare a c \<le> 0"
proof (induction a arbitrary: b c)
  case Nil
  then show ?case by (cases c) simp_all
next
  case (Cons x xs)
  from Cons.prems obtain y ys where b: "b = y # ys"
    by (cases b) auto
  from Cons.prems b obtain z zs where c: "c = z # zs"
    by (cases c) auto
  from Cons.prems Cons.IH [of ys zs] show ?case
    unfolding b c by (auto split: if_splits)
qed

lemma trim_oslo: "trim ''Oslo'' = ''Oslo''"
  by (simp add: trim_def is_space_def)

lemma oslo_found:
  "matchingSchools code_compare oslo_schools ''Oslo'' =
     [sample_school ''Oslo Skole'' ''Oslo'', sample_school ''Ny Oslo Skole'' ''Oslo'']"
  by (simp add: matchingSchools_def oslo_schools_def sample_school_def toLowerCase_def is_upper_def
      array_sort_def sort_compare_def Let_def)

theorem search_matches_and_order_witness:
  \<open>2 \<le> length (trim ''Oslo'')
   \<and> matchingSchools code_compare oslo_schools (trim ''Oslo'') =
       [sample_school ''Oslo Skole'' ''Oslo'', sample_school ''Ny Oslo Skole'' ''Oslo'']
   \<and> mset [sample_school ''Oslo Skole'' ''Oslo'', sample_school ''Ny Oslo Skole'' ''Oslo''] =
       mset (filter (\<lambda>school. includes_str (toLowerCase (name school)) (toLowerCase ''Oslo''))
              oslo_schools)
   \<and> resultsHtml (on_search_input (\<lambda>h. h) code_compare ''Oslo''
         ((initial_app True)\<lparr>schoolsData := oslo_schools\<rparr>)) =
       results_markup (\<lambda>h. h) ''Oslo''
         [sample_school ''Oslo Skole'' ''Oslo'', sample_school ''Ny Oslo Skole'' ''Oslo'']\<close>
proof -
  have total: "\<forall>x y. code_compare x y \<le> 0 \<or> code_compare y x \<le> 0"
    by (simp add: code_compare_total)
  have trans: "\<forall>x y z. code_compare x y \<le> 0 \<and> code_compare y z \<le> 0 \<longrightarrow> code_compare x z \<le> 0"
    using code_compare_trans by blast
  have long: "2 \<le> length (trim ''Oslo'')"
    by (simp add: trim_oslo)
  have data: "schoolsData ((initial_app True)\<lparr>schoolsData := oslo_schools\<rparr>) = oslo_schools"
    by simp
  note inst = search_matches_and_order
    [OF total trans long, where read_back = "\<lambda>h. h"
       and st = "(initial_app True)\<lparr>schoolsData := oslo_schools\<rparr>",
     unfolded Let_def data]
  have members: \<open>mset (matchingSchools code_compare oslo_schools (trim ''Oslo'')) =
          mset (filter (\<lambda>school. includes_str (toLowerCase (name school))
                 (toLowerCase (trim ''Oslo''))) oslo_schools)\<close>
    by (rule inst [THEN conjunct1])
  have markup: \<open>resultsHtml (on_search_input (\<lambda>h. h) code_compare ''Oslo''
             ((initial_app True)\<lparr>schoolsData := oslo_schools\<rparr>)) =
            (if matchingSchools code_compare oslo_schools (trim ''Oslo'') = []
             then ''<div class="no-results">Ingen skoler funnet</div>''
             else results_markup (\<lambda>h. h) (trim ''Oslo'')
                    (matchingSchools code_compare oslo_schools (trim ''Oslo'')))\<close>
    by (rule inst [THEN conjunct2, THEN conjunct2, THEN conjunct2, THEN conjunct2])
  have found: "matchingSchools code_compare oslo_schools (trim ''Oslo'') =
       [sample_school ''Oslo Skole'' ''Oslo'', sample_school ''Ny Oslo Skole'' ''Oslo'']"
    by (simp only: trim_oslo oslo_found)
  have "mset [sample_school ''Oslo Skole'' ''Oslo'', sample_school ''Ny Oslo Skole'' ''Oslo''] =
       mset (filter (\<lambda>school. includes_str (toLowerCase (name school)) (toLowerCase ''Oslo''))
              oslo_schools)"
    using members by (simp only: trim_oslo oslo_found)
  moreover have \<open>resultsHtml (on_search_input (\<lambda>h. h) code_compare ''Oslo''
         ((initial_app True)\<lparr>schoolsData := oslo_schools\<rparr>)) =
       results_markup (\<lambda>h. h) ''Oslo''
         [sample_school ''Oslo Skole'' ''Oslo'', sample_school ''Ny Oslo Skole'' ''Oslo'']\<close>
    using markup by (simp only: trim_oslo oslo_found list.distinct if_False)
  ultimately show ?thesis
    using long found by (intro conjI)
qed








end
